theory Spec2Isabelle
  imports Main
begin

section \<open>Data model (models/SourceCode.js, models/Order.js)\<close>

text \<open>
  Dates are milliseconds since the epoch; document identities (Mongo \<open>_id\<close>) are natural
  numbers. A schema path that is \<open>undefined\<close> or \<open>null\<close> in a document is \<open>None\<close>.
  The \<open>createdAt\<close>/\<open>updatedAt\<close> timestamps that Mongoose maintains are only used to sort
  the listing pages and are left out of the records.
\<close>

type_synonym time = int
type_synonym objectId = nat

record sourceCode =
  sc_id :: objectId
  title :: string
  imageUrl :: "string option"
  description :: "string option"
  driveLink :: string
  priceVND :: int

datatype order_status = PENDING | PAID

record activation =
  isActivated :: bool
  activatedAt :: "time option"
  deviceId :: "string option"
  ip :: "string option"

record order =
  oid :: objectId
  buyerName :: "string option"
  buyerEmail :: "string option"
  code :: objectId
  amount :: int
  orderCode :: int
  status :: order_status
  paymentLinkId :: "string option"
  checkoutUrl :: "string option"
  reference :: "string option"
  paidAt :: "time option"
  activation :: "activation option"

text \<open>The database \<open>code_shop\<close>: the two collections, in insertion order.\<close>

record db =
  orders :: "order list"
  codes :: "sourceCode list"

text \<open>Process configuration read from \<open>process.env\<close>; an unset variable is \<open>None\<close>.\<close>

record env =
  PAYOS_CHECKSUM_KEY :: "string option"
  ADMIN_ACTIVATE_SECRET :: "string option"
  ADMIN_USER :: "string option"
  ADMIN_PASSWORD :: "string option"
  BASE_URL :: "string option"

section \<open>Responses\<close>

text \<open>An order after \<open>.populate('code')\<close>: the reference replaced by the catalog document, or
  by \<open>null\<close> when no document has that identity.\<close>

type_synonym populated = "order \<times> sourceCode option"

text \<open>The JSON bodies: \<open>{ error }\<close>; the 409 of activate, \<open>{ error, activatedAt, deviceId }\<close>;
  its 200, \<open>{ ok, message, orderId, orderCode, deviceId, activatedAt, driveLink }\<close>, of which
  the constant \<open>ok\<close> and \<open>message\<close> are not kept; \<open>{ ok: true }\<close>; and \<open>{ status }\<close>.\<close>

datatype json =
    Error string
  | AlreadyActivatedBody string "time option" "string option"
  | ActivateBody objectId int "string option" "time option" "string option"
  | OkBody
  | StatusBody order_status

text \<open>What a handler answers: \<open>res.status(n).json(..)\<close>, \<open>res.status(n).send(..)\<close>,
  \<open>res.redirect(..)\<close>, \<open>res.render('order_status', { order, money, ok })\<close>, the 401
  challenge of the basic-auth middleware, or nothing at all when the promise of a handler
  without \<open>try\<close> rejects.\<close>

datatype response =
    Json nat json
  | Send nat string
  | Redirect "string option"
  | RenderOrderStatus populated bool
  | Challenge
  | Unhandled

section \<open>JavaScript and Mongoose primitives\<close>

text \<open>Truthiness of a number or string that may be absent: \<open>undefined\<close>, \<open>null\<close>, \<open>0\<close> and
  the empty string are falsy.\<close>

definition truthy_num :: "int option \<Rightarrow> bool" where
  "truthy_num v = (case v of None \<Rightarrow> False | Some n \<Rightarrow> n \<noteq> 0)"

definition truthy_str :: "string option \<Rightarrow> bool" where
  "truthy_str v = (case v of None \<Rightarrow> False | Some s \<Rightarrow> s \<noteq> [])"

text \<open>\<open>a || b\<close> on strings that may be absent.\<close>

definition or_else :: "string option \<Rightarrow> string option \<Rightarrow> string option" where
  "or_else a b = (if truthy_str a then a else b)"

text \<open>\<open>order.activation?.isActivated\<close>, as a condition.\<close>

definition activation_isActivated :: "order \<Rightarrow> bool" where
  "activation_isActivated ord = (case activation ord of None \<Rightarrow> False | Some a \<Rightarrow> isActivated a)"

text \<open>Decimal rendering of an integer inside a template string (safe integers only: JavaScript
  switches to exponent notation from \<open>10^21\<close>, and \<open>Date.now()\<close> is far below).\<close>

fun string_of_nat :: "nat \<Rightarrow> string" where
  "string_of_nat n =
     (if n < 10 then [''0123456789'' ! n]
      else string_of_nat (n div 10) @ [''0123456789'' ! (n mod 10)])"

declare string_of_nat.simps [simp del]

definition string_of_int :: "int \<Rightarrow> string" where
  "string_of_int i = (if i < 0 then CHR ''-'' # string_of_nat (nat (- i)) else string_of_nat (nat i))"

text \<open>\<open>`${v}`\<close> for a query parameter that may be absent.\<close>

definition template_str :: "string option \<Rightarrow> string" where
  "template_str v = (case v of None \<Rightarrow> ''undefined'' | Some s \<Rightarrow> s)"

text \<open>\<open>Model.findById\<close>, \<open>Order.findOne({ orderCode })\<close>: the first matching document.\<close>

definition findById_code :: "db \<Rightarrow> objectId \<Rightarrow> sourceCode option" where
  "findById_code st i = find (\<lambda>c. sc_id c = i) (codes st)"

definition findById_order :: "db \<Rightarrow> objectId \<Rightarrow> order option" where
  "findById_order st i = find (\<lambda>ord. oid ord = i) (orders st)"

definition findOne_orderCode :: "db \<Rightarrow> int \<Rightarrow> order option" where
  "findOne_orderCode st c = find (\<lambda>ord. orderCode ord = c) (orders st)"

definition populate :: "db \<Rightarrow> order \<Rightarrow> populated" where
  "populate st ord = (ord, findById_code st (code ord))"

text \<open>An update of one document: the first one that matches the filter gets the change, the
  others stay. \<open>doc.save()\<close> and \<open>findByIdAndUpdate\<close> filter on \<open>_id\<close> and write only the
  paths that were assigned; \<open>updateOne({ orderCode }, ...)\<close> filters on \<open>orderCode\<close>.\<close>

fun update_first :: "('a \<Rightarrow> bool) \<Rightarrow> ('a \<Rightarrow> 'a) \<Rightarrow> 'a list \<Rightarrow> 'a list" where
  "update_first P f [] = []"
| "update_first P f (x # xs) = (if P x then f x # xs else x # update_first P f xs)"

definition updateById_order :: "objectId \<Rightarrow> (order \<Rightarrow> order) \<Rightarrow> db \<Rightarrow> db" where
  "updateById_order i f st = st\<lparr>orders := update_first (\<lambda>ord. oid ord = i) f (orders st)\<rparr>"

definition updateOne_orderCode :: "int \<Rightarrow> (order \<Rightarrow> order) \<Rightarrow> db \<Rightarrow> db" where
  "updateOne_orderCode c f st = st\<lparr>orders := update_first (\<lambda>ord. orderCode ord = c) f (orders st)\<rparr>"

section \<open>POST /api/activate\<close>

text \<open>The request: the JSON body \<open>{ orderCode: number, deviceId?: string }\<close>, typed as the
  handler's comment and the interface give it (an integer and a string, each possibly
  absent), and what the handler reads of the connection. The header \<open>x-forwarded-for\<close> is
  absent, a string or an array of strings.\<close>

datatype header = HUndefined | HString string | HArray "string list"

record api_request =
  body_orderCode :: "int option"
  body_deviceId :: "string option"
  x_forwarded_for :: header
  remoteAddress :: "string option"
  req_ip :: "string option"

definition header_string :: "header \<Rightarrow> string option" where
  "header_string h = (case h of HString s \<Rightarrow> Some s | _ \<Rightarrow> None)"

text \<open>\<open>Array.isArray(ipHeader) ? ipHeader[0]
  : (ipHeader || req.socket?.remoteAddress || req.ip || '').toString()\<close>\<close>

definition request_ip :: "api_request \<Rightarrow> string option" where
  "request_ip req =
     (case x_forwarded_for req of
        HArray hs \<Rightarrow> (case hs of [] \<Rightarrow> None | h # _ \<Rightarrow> Some h)
      | _ \<Rightarrow>
          or_else (or_else (or_else (header_string (x_forwarded_for req)) (remoteAddress req))
                     (req_ip req)) (Some []))"

text \<open>The handler runs in two parts, separated by its \<open>await\<close>s: up to and including the
  query \<open>Order.findOne({ orderCode }).populate('code')\<close>, which yields the loaded document,
  and from there to the response, with the write \<open>order.save()\<close> of the assigned path
  \<open>activation\<close>.\<close>

definition activate_load :: "db \<Rightarrow> api_request \<Rightarrow> response + populated" where
  "activate_load st req =
     (if \<not> truthy_num (body_orderCode req) then Inl (Json 400 (Error ''orderCode is required''))
      else case findOne_orderCode st (the (body_orderCode req)) of
             None \<Rightarrow> Inl (Json 404 (Error ''Order not found''))
           | Some ord \<Rightarrow> Inr (populate st ord))"

definition activate_finish :: "time \<Rightarrow> api_request \<Rightarrow> populated \<Rightarrow> db \<Rightarrow> db \<times> response" where
  "activate_finish now req p st =
     (let ord = fst p in
      if status ord \<noteq> PAID then (st, Json 400 (Error ''Order is not PAID''))
      else if activation_isActivated ord then
        (st, Json 409 (AlreadyActivatedBody ''Order already activated''
                         (activatedAt (the (activation ord))) (deviceId (the (activation ord)))))
      else
        let a = \<lparr>isActivated = True, activatedAt = Some now,
                 deviceId = or_else (body_deviceId req) None, ip = request_ip req\<rparr>
        in (updateById_order (oid ord) (\<lambda>d. d\<lparr>activation := Some a\<rparr>) st,
            Json 200 (ActivateBody (oid ord) (orderCode ord) (deviceId a) (activatedAt a)
                        (case snd p of None \<Rightarrow> None
                         | Some c \<Rightarrow> or_else (Some (driveLink c)) None))))"

definition activate :: "time \<Rightarrow> api_request \<Rightarrow> db \<Rightarrow> db \<times> response" where
  "activate now req st =
     (case activate_load st req of
        Inl r \<Rightarrow> (st, r)
      | Inr p \<Rightarrow> activate_finish now req p st)"

text \<open>The activation that a first call assigns, with \<open>deviceId || null\<close> written out.\<close>

definition activated_with :: "time \<Rightarrow> api_request \<Rightarrow> activation" where
  "activated_with now req =
     \<lparr>isActivated = True, activatedAt = Some now,
      deviceId = (if truthy_str (body_deviceId req) then body_deviceId req else None),
      ip = request_ip req\<rparr>"

section \<open>POST /api/validate\<close>

definition validate :: "api_request \<Rightarrow> db \<Rightarrow> db \<times> response" where
  "validate req st =
     (if \<not> truthy_num (body_orderCode req) \<or> \<not> truthy_str (body_deviceId req)
      then (st, Json 400 (Error ''orderCode & deviceId required''))
      else case findOne_orderCode st (the (body_orderCode req)) of
             None \<Rightarrow> (st, Json 404 (Error ''Order not found''))
           | Some ord \<Rightarrow>
               if status ord \<noteq> PAID then (st, Json 400 (Error ''Order is not PAID''))
               else if \<not> activation_isActivated ord
               then (st, Json 403 (Error ''Order not activated yet''))
               else if truthy_str (deviceId (the (activation ord)))
                       \<and> deviceId (the (activation ord)) \<noteq> body_deviceId req
               then (st, Json 409 (Error ''Device mismatch''))
               else (st, Json 200 OkBody))"

section \<open>Payment bridge: POST /order and GET /order/:id/success\<close>

text \<open>\<open>crypto.createHmac('sha256', key).update(msg).digest('hex')\<close> is the library's: the
  handlers take it as the parameter \<open>H\<close>, from key and message to the hex digest. With the key
  \<open>undefined\<close> (the variable unset) \<open>createHmac\<close> throws.\<close>

type_synonym hmac = "string \<Rightarrow> string \<Rightarrow> string"

text \<open>The message \<open>`${orderCode}:${status}`\<close>.\<close>

definition sig_message :: "int \<Rightarrow> string option \<Rightarrow> string" where
  "sig_message c s = string_of_int c @ '':'' @ template_str s"

record order_form =
  form_name :: "string option"
  form_email :: "string option"
  form_codeId :: objectId

text \<open>What \<open>payos.paymentRequests.create\<close> resolves to; the handler reads
  \<open>paymentLink.paymentLinkId || paymentLink.data?.paymentLinkId\<close> and the same for
  \<open>checkoutUrl\<close>. The call is the provider's: its outcome for the given return URL is the
  parameter \<open>payos\<close>, \<open>None\<close> when it rejects.\<close>

record payment_link =
  pl_paymentLinkId :: "string option"
  pl_checkoutUrl :: "string option"
  pl_data_paymentLinkId :: "string option"
  pl_data_checkoutUrl :: "string option"

definition default_activation :: activation where
  "default_activation = \<lparr>isActivated = False, activatedAt = None, deviceId = None, ip = None\<rparr>"

definition returnUrl :: "env \<Rightarrow> objectId \<Rightarrow> int \<Rightarrow> string \<Rightarrow> string" where
  "returnUrl e i c sg =
     template_str (BASE_URL e) @ ''/order/'' @ string_of_nat i @ ''/success?orderCode=''
       @ string_of_int c @ ''&status=PAID&sig='' @ sg"

text \<open>\<open>Order.create\<close> inserts under the unique indexes on \<open>_id\<close> and \<open>orderCode\<close>: a duplicate
  key rejects, and the \<open>catch\<close> answers 500 (its Vietnamese message is written here without
  diacritics). \<open>now\<close> is \<open>Date.now()\<close>, \<open>newId\<close> the identity the driver generates. The order
  is inserted before the signature is computed and the provider is called, so it stays,
  PENDING, when either of them throws.\<close>

definition order_post ::
  "hmac \<Rightarrow> env \<Rightarrow> (string \<Rightarrow> payment_link option) \<Rightarrow> time \<Rightarrow> objectId \<Rightarrow> order_form \<Rightarrow> db
     \<Rightarrow> db \<times> response" where
  "order_post H e payos now newId form st =
     (case findById_code st (form_codeId form) of
        None \<Rightarrow> (st, Send 404 ''Code not found'')
      | Some c \<Rightarrow>
          if \<exists>ord \<in> set (orders st). oid ord = newId \<or> orderCode ord = now
          then (st, Send 500 ''Khong tao duoc don / link thanh toan.'')
          else
            let ord = \<lparr>oid = newId, buyerName = form_name form, buyerEmail = form_email form,
                       code = sc_id c, amount = priceVND c, orderCode = now, status = PENDING,
                       paymentLinkId = None, checkoutUrl = None, reference = None,
                       paidAt = None, activation = Some default_activation\<rparr>;
                st1 = st\<lparr>orders := orders st @ [ord]\<rparr>
            in (case PAYOS_CHECKSUM_KEY e of
                 None \<Rightarrow> (st1, Send 500 ''Khong tao duoc don / link thanh toan.'')
               | Some key \<Rightarrow>
                   (case payos (returnUrl e newId now (H key (sig_message now (Some ''PAID'')))) of
                      None \<Rightarrow> (st1, Send 500 ''Khong tao duoc don / link thanh toan.'')
                    | Some pl \<Rightarrow>
                        let lid = or_else (pl_paymentLinkId pl) (pl_data_paymentLinkId pl);
                            url = or_else (pl_checkoutUrl pl) (pl_data_checkoutUrl pl)
                        in (updateById_order newId
                              (\<lambda>d. d\<lparr>paymentLinkId := lid, checkoutUrl := url\<rparr>) st1,
                            Redirect url))))"

text \<open>The query of the return trip; the handler destructures \<open>status\<close>, \<open>orderCode\<close> and
  \<open>sig\<close>.\<close>

record success_query =
  q_status :: "string option"
  q_orderCode :: "string option"
  q_sig :: "string option"

definition order_success ::
  "hmac \<Rightarrow> env \<Rightarrow> time \<Rightarrow> objectId \<Rightarrow> success_query \<Rightarrow> db \<Rightarrow> db \<times> response" where
  "order_success H e now i q st =
     (case findById_order st i of
        None \<Rightarrow> (st, Send 404 ''Not found'')
      | Some ord \<Rightarrow>
          (case PAYOS_CHECKSUM_KEY e of
             None \<Rightarrow> (st, RenderOrderStatus (populate st ord) True)
           | Some key \<Rightarrow>
               let expected = H key (sig_message (orderCode ord) (q_status q)) in
               if q_status q = Some ''PAID'' \<and> q_sig q = Some expected
               then (updateById_order (oid ord) (\<lambda>d. d\<lparr>status := PAID, paidAt := Some now\<rparr>) st,
                     RenderOrderStatus
                       (ord\<lparr>status := PAID, paidAt := Some now\<rparr>, snd (populate st ord)) True)
               else (st, RenderOrderStatus (populate st ord) True)))"

definition order_cancel :: "objectId \<Rightarrow> db \<Rightarrow> db \<times> response" where
  "order_cancel i st =
     (case findById_order st i of
        None \<Rightarrow> (st, Send 404 ''Not found'')
      | Some ord \<Rightarrow> (st, RenderOrderStatus (populate st ord) False))"

definition api_order :: "objectId \<Rightarrow> db \<Rightarrow> db \<times> response" where
  "api_order i st =
     (case findById_order st i of
        None \<Rightarrow> (st, Json 404 (Error ''Not found''))
      | Some ord \<Rightarrow> (st, Json 200 (StatusBody (status ord))))"

section \<open>Admin surface\<close>

text \<open>The basic-auth middleware: one user, \<open>ADMIN_USER || 'admin'\<close> with password
  \<open>ADMIN_PASSWORD || 'admin123'\<close>.\<close>

definition adminAuth :: "env \<Rightarrow> (string \<times> string) option \<Rightarrow> bool" where
  "adminAuth e cr =
     (case cr of None \<Rightarrow> False
      | Some (u, p) \<Rightarrow> Some u = or_else (ADMIN_USER e) (Some ''admin'')
                       \<and> Some p = or_else (ADMIN_PASSWORD e) (Some ''admin123''))"

record code_form =
  cf_title :: "string option"
  cf_imageUrl :: "string option"
  cf_description :: "string option"
  cf_driveLink :: "string option"
  cf_priceVND :: "int option"

text \<open>\<open>Number(priceVND) || 0\<close>; a field that does not parse is \<open>None\<close>.\<close>

definition number_or_0 :: "int option \<Rightarrow> int" where
  "number_or_0 v = (case v of None \<Rightarrow> 0 | Some n \<Rightarrow> n)"

text \<open>\<open>SourceCode.create\<close> validates: \<open>title\<close> and \<open>driveLink\<close> are required. The handler has
  no \<open>try\<close>.\<close>

definition admin_codes_create :: "objectId \<Rightarrow> code_form \<Rightarrow> db \<Rightarrow> db \<times> response" where
  "admin_codes_create newId f st =
     (if \<not> truthy_str (cf_title f) \<or> \<not> truthy_str (cf_driveLink f)
         \<or> (\<exists>c \<in> set (codes st). sc_id c = newId)
      then (st, Unhandled)
      else (st\<lparr>codes := codes st @
                  [\<lparr>sc_id = newId, title = the (cf_title f), imageUrl = cf_imageUrl f,
                    description = cf_description f, driveLink = the (cf_driveLink f),
                    priceVND = number_or_0 (cf_priceVND f)\<rparr>]\<rparr>,
            Redirect (Some ''/admin/codes'')))"

text \<open>\<open>findByIdAndUpdate\<close> runs no validators; a key whose value is \<open>undefined\<close> is not
  written (Mongoose 6 and later).\<close>

definition admin_codes_update :: "objectId \<Rightarrow> code_form \<Rightarrow> db \<Rightarrow> db \<times> response" where
  "admin_codes_update i f st =
     (st\<lparr>codes := update_first (\<lambda>c. sc_id c = i)
            (\<lambda>c. c\<lparr>title := (case cf_title f of None \<Rightarrow> title c | Some t \<Rightarrow> t),
                   imageUrl := (case cf_imageUrl f of None \<Rightarrow> imageUrl c | Some u \<Rightarrow> Some u),
                   description := (case cf_description f of None \<Rightarrow> description c | Some u \<Rightarrow> Some u),
                   driveLink := (case cf_driveLink f of None \<Rightarrow> driveLink c | Some l \<Rightarrow> l),
                   priceVND := number_or_0 (cf_priceVND f)\<rparr>) (codes st)\<rparr>,
      Redirect (Some ''/admin/codes''))"

fun delete_first :: "('a \<Rightarrow> bool) \<Rightarrow> 'a list \<Rightarrow> 'a list" where
  "delete_first P [] = []"
| "delete_first P (x # xs) = (if P x then xs else x # delete_first P xs)"

definition admin_codes_delete :: "objectId \<Rightarrow> db \<Rightarrow> db \<times> response" where
  "admin_codes_delete i st =
     (st\<lparr>codes := delete_first (\<lambda>c. sc_id c = i) (codes st)\<rparr>, Redirect (Some ''/admin/codes''))"

definition admin_mark_paid :: "time \<Rightarrow> objectId \<Rightarrow> db \<Rightarrow> db \<times> response" where
  "admin_mark_paid now i st =
     (updateById_order i (\<lambda>d. d\<lparr>status := PAID, paidAt := Some now\<rparr>) st,
      Redirect (Some ''/admin/orders''))"

text \<open>POST /admin/activations/:id/reset.\<close>

definition admin_reset_activation :: "objectId \<Rightarrow> db \<Rightarrow> db \<times> response" where
  "admin_reset_activation i st =
     (updateById_order i
        (\<lambda>d. d\<lparr>activation := Some \<lparr>isActivated = False, activatedAt = None,
                                     deviceId = None, ip = None\<rparr>\<rparr>) st,
      Redirect (Some ''back''))"

text \<open>The route as it is served, \<open>app.post('/admin/activations/:id/reset', adminAuth, ...)\<close>:
  the basic-auth middleware answers its challenge before the handler runs, and the path
  parameter \<open>:id\<close> is a string that casts to an identity or does not (\<open>None\<close>); on a failed
  cast \<open>findByIdAndUpdate\<close> rejects, in a handler without \<open>try\<close>.\<close>

definition admin_reset_route ::
  "env \<Rightarrow> (string \<times> string) option \<Rightarrow> objectId option \<Rightarrow> db \<Rightarrow> db \<times> response" where
  "admin_reset_route e cr p st =
     (if \<not> adminAuth e cr then (st, Challenge)
      else case p of None \<Rightarrow> (st, Unhandled) | Some i \<Rightarrow> admin_reset_activation i st)"

text \<open>POST /api/admin/reset-activation, gated by the header \<open>x-admin-secret\<close>; the update is
  \<open>{ $set: { activation: null } }\<close>.\<close>

definition api_reset_activation :: "env \<Rightarrow> string option \<Rightarrow> int option \<Rightarrow> db \<Rightarrow> db \<times> response" where
  "api_reset_activation e secret c st =
     (if secret \<noteq> ADMIN_ACTIVATE_SECRET e then (st, Json 401 (Error ''unauthorized''))
      else if \<not> truthy_num c then (st, Json 400 (Error ''orderCode required''))
      else (updateOne_orderCode (the c) (\<lambda>d. d\<lparr>activation := None\<rparr>) st, Json 200 OkBody))"

section \<open>The service as a whole\<close>

text \<open>The requests that read or write the database, each with what the handler takes from
  its surroundings (the clock, the generated identity, the provider's answer).\<close>

datatype admin_request =
    CodesCreate objectId code_form
  | CodesUpdate objectId code_form
  | CodesDelete objectId
  | MarkPaid time objectId
  | ResetActivation objectId

datatype request =
    PostOrder "string \<Rightarrow> payment_link option" time objectId order_form
  | GetOrderSuccess time objectId success_query
  | GetOrderCancel objectId
  | GetApiOrder objectId
  | PostActivate time api_request
  | PostValidate api_request
  | PostApiReset "string option" "int option"
  | Admin "(string \<times> string) option" admin_request

fun admin_handle :: "admin_request \<Rightarrow> db \<Rightarrow> db \<times> response" where
  "admin_handle (CodesCreate i f) st = admin_codes_create i f st"
| "admin_handle (CodesUpdate i f) st = admin_codes_update i f st"
| "admin_handle (CodesDelete i) st = admin_codes_delete i st"
| "admin_handle (MarkPaid now i) st = admin_mark_paid now i st"
| "admin_handle (ResetActivation i) st = admin_reset_activation i st"

fun handle :: "hmac \<Rightarrow> env \<Rightarrow> request \<Rightarrow> db \<Rightarrow> db \<times> response" where
  "handle H e (PostOrder payos now i f) st = order_post H e payos now i f st"
| "handle H e (GetOrderSuccess now i q) st = order_success H e now i q st"
| "handle H e (GetOrderCancel i) st = order_cancel i st"
| "handle H e (GetApiOrder i) st = api_order i st"
| "handle H e (PostActivate now req) st = activate now req st"
| "handle H e (PostValidate req) st = validate req st"
| "handle H e (PostApiReset secret c) st = api_reset_activation e secret c st"
| "handle H e (Admin cr a) st = (if adminAuth e cr then admin_handle a st else (st, Challenge))"

text \<open>Requests served one after the other, from a given database.\<close>

fun run :: "hmac \<Rightarrow> env \<Rightarrow> request list \<Rightarrow> db \<Rightarrow> db" where
  "run H e [] st = st"
| "run H e (r # rs) st = run H e rs (fst (handle H e r st))"

definition empty_db :: db where
  "empty_db = \<lparr>orders = [], codes = []\<rparr>"

section \<open>Overlapping calls of POST /api/activate\<close>

text \<open>Node runs a handler until its next \<open>await\<close>; there another request may be served. A
  call of the activate handler is therefore a task with two steps: the query, and the checks
  on the loaded document with the write.\<close>

datatype task = Waiting api_request | Loaded api_request populated | Done response

fun task_step :: "time \<Rightarrow> task \<Rightarrow> db \<Rightarrow> db \<times> task" where
  "task_step now (Waiting req) st =
     (case activate_load st req of Inl r \<Rightarrow> (st, Done r) | Inr p \<Rightarrow> (st, Loaded req p))"
| "task_step now (Loaded req p) st =
     (case activate_finish now req p st of (st', r) \<Rightarrow> (st', Done r))"
| "task_step now (Done r) st = (st, Done r)"

text \<open>Two calls under a schedule: each entry names the call that takes its next step
  (\<open>False\<close> the first, \<open>True\<close> the second) and the time on the clock.\<close>

fun run_two :: "(bool \<times> time) list \<Rightarrow> task \<times> task \<Rightarrow> db \<Rightarrow> db \<times> task \<times> task" where
  "run_two [] ts st = (st, ts)"
| "run_two ((w, now) # sch) (t1, t2) st =
     (if w then (case task_step now t2 st of (st', t2') \<Rightarrow> run_two sch (t1, t2') st')
      else (case task_step now t1 st of (st', t1') \<Rightarrow> run_two sch (t1', t2) st'))"

section \<open>Invariant of the order ledger\<close>

text \<open>Identities are unique (the index on \<open>_id\<close>), and an activated order is paid.\<close>

definition ledger_inv :: "db \<Rightarrow> bool" where
  "ledger_inv st =
     (distinct (map oid (orders st))
      \<and> (\<forall>ord \<in> set (orders st). activation_isActivated ord \<longrightarrow> status ord = PAID))"

section \<open>Sample data\<close>

text \<open>A catalog item, an order of it in three stages of its life (pending, paid,
  activated), a second order, requests, a configuration and a session, for evaluating the
  handlers on concrete inputs. \<open>example_hmac\<close> stands in for the library's digest there: it
  is only a function of key and message without collisions.\<close>

definition example_code :: sourceCode where
  "example_code = \<lparr>sc_id = 7, title = ''Shop template'', imageUrl = None, description = None,
                    driveLink = ''https://drive.example/x'', priceVND = 100000\<rparr>"

definition example_order :: order where
  "example_order = \<lparr>oid = 1, buyerName = Some ''An'', buyerEmail = Some ''an@example.org'',
                     code = 7, amount = 100000, orderCode = 42, status = PENDING,
                     paymentLinkId = None, checkoutUrl = None, reference = None,
                     paidAt = None, activation = Some default_activation\<rparr>"

definition paid_order :: order where
  "paid_order = example_order\<lparr>status := PAID, paidAt := Some 5\<rparr>"

definition activated_order :: order where
  "activated_order = paid_order\<lparr>activation := Some \<lparr>isActivated = True, activatedAt = Some 6,
                        deviceId = Some ''dev-123'', ip = Some ''10.0.0.1''\<rparr>\<rparr>"

definition paid_db :: db where
  "paid_db = \<lparr>orders = [paid_order], codes = [example_code]\<rparr>"

definition activated_db :: db where
  "activated_db = \<lparr>orders = [activated_order], codes = [example_code]\<rparr>"

definition example_request :: "int option \<Rightarrow> string option \<Rightarrow> api_request" where
  "example_request c d = \<lparr>body_orderCode = c, body_deviceId = d, x_forwarded_for = HUndefined,
                           remoteAddress = Some ''10.0.0.1'', req_ip = None\<rparr>"

definition example_hmac :: hmac where
  "example_hmac key msg = key @ ''/'' @ msg"

definition example_env :: env where
  "example_env = \<lparr>PAYOS_CHECKSUM_KEY = Some ''k'', ADMIN_ACTIVATE_SECRET = Some ''s'',
                   ADMIN_USER = None, ADMIN_PASSWORD = None, BASE_URL = Some ''http://shop''\<rparr>"

definition pending_db :: db where
  "pending_db = \<lparr>orders = [example_order], codes = [example_code]\<rparr>"

definition example_query :: "string \<Rightarrow> success_query" where
  "example_query sg = \<lparr>q_status = Some ''PAID'', q_orderCode = Some ''42'', q_sig = Some sg\<rparr>"

definition second_order :: order where
  "second_order = example_order\<lparr>oid := 2, orderCode := 43\<rparr>"

definition two_order_db :: db where
  "two_order_db = \<lparr>orders = [example_order, second_order], codes = [example_code]\<rparr>"

definition example_session :: "request list" where
  "example_session =
     [Admin (Some (''admin'', ''admin123''))
        (CodesCreate 7 \<lparr>cf_title = Some ''Shop template'', cf_imageUrl = None,
                        cf_description = None, cf_driveLink = Some ''https://drive.example/x'',
                        cf_priceVND = Some 100000\<rparr>),
      PostOrder (\<lambda>url. Some \<lparr>pl_paymentLinkId = Some ''pl-1'',
                               pl_checkoutUrl = Some ''https://pay.example/pl-1'',
                               pl_data_paymentLinkId = None, pl_data_checkoutUrl = None\<rparr>)
        42 1 \<lparr>form_name = Some ''An'', form_email = Some ''an@example.org'', form_codeId = 7\<rparr>,
      GetOrderSuccess 50 1 (example_query ''k/42:PAID''),
      PostActivate 60 (example_request (Some 42) (Some ''dev-123''))]"

section \<open>Unfolding the sample data\<close>

lemmas example_defs = example_code_def example_order_def paid_order_def activated_order_def
  paid_db_def activated_db_def example_request_def default_activation_def

section \<open>Facts about the store primitives\<close>

lemma update_first_distinct:
  "distinct (map k xs) \<Longrightarrow>
     update_first (\<lambda>x. k x = i) f xs = map (\<lambda>x. if k x = i then f x else x) xs"
proof (induction xs)
  case Nil
  show ?case by simp
next
  case (Cons x xs)
  show ?case
  proof (cases "k x = i")
    case True
    with Cons.prems have "\<forall>y \<in> set xs. k y \<noteq> i" by (auto simp: image_iff)
    then have "map (\<lambda>y. if k y = i then f y else y) xs = xs" by (simp add: map_idI)
    with True show ?thesis by simp
  next
    case False
    with Cons show ?thesis by simp
  qed
qed

lemma find_key_distinct:
  "distinct (map k xs) \<Longrightarrow> x \<in> set xs \<Longrightarrow> find (\<lambda>y. k y = k x) xs = Some x"
  by (induction xs) auto

lemma find_update_first_same:
  "(\<And>x. P x \<Longrightarrow> P (f x)) \<Longrightarrow> find P (update_first P f xs) = map_option f (find P xs)"
  by (induction xs) auto

lemma find_update_first_other:
  "(\<And>x. Q (f x) = Q x) \<Longrightarrow> (\<And>x. P x \<Longrightarrow> \<not> Q x) \<Longrightarrow>
     find Q (update_first P f xs) = find Q xs"
  by (induction xs) auto

lemma find_map_key:
  "(\<And>x. P (g x) = P x) \<Longrightarrow> find P (map g xs) = map_option g (find P xs)"
  by (induction xs) auto

lemma find_delete_first:
  "distinct (map k xs) \<Longrightarrow> find (\<lambda>x. k x = i) (delete_first (\<lambda>x. k x = i) xs) = None"
  by (induction xs) (auto simp: find_None_iff image_iff)

lemma map_update_first_key:
  "(\<And>x. k (f x) = k x) \<Longrightarrow> map k (update_first P f xs) = map k xs"
  by (induction xs) auto

lemma find_Some_mem: "find P xs = Some x \<Longrightarrow> x \<in> set xs \<and> P x"
  by (induction xs) (auto split: if_splits)

section \<open>Validate\<close>

text \<open>
  C6. Validate is free of side effects: for every request and every database, whatever the
  answer (200, 400, 404, 403 or 409), the database after the call is the database before
  it; no order's status, paidAt or activation changes.
\<close>

theorem validate_no_mutation: "fst (validate req st) = st"
  by (simp add: validate_def split: option.split)

theorem validate_no_mutation_witness:
  "fst (validate (example_request (Some 42) (Some ''dev-999'')) activated_db) = activated_db"
  by (rule validate_no_mutation)

lemma validate_found:
  assumes "body_orderCode req = Some c" "c \<noteq> 0" "body_deviceId req = Some d" "d \<noteq> []"
    and "findOne_orderCode st c = Some ord"
  shows "validate req st =
     (st, if status ord \<noteq> PAID then Json 400 (Error ''Order is not PAID'')
          else if \<not> activation_isActivated ord then Json 403 (Error ''Order not activated yet'')
          else if truthy_str (deviceId (the (activation ord)))
                  \<and> deviceId (the (activation ord)) \<noteq> Some d
          then Json 409 (Error ''Device mismatch'')
          else Json 200 OkBody)"
  using assms by (simp add: validate_def truthy_num_def truthy_str_def)

text \<open>
  C4. Validate(orderCode, deviceId) is the following case analysis. If either field is
  missing (absent, or falsy: the handler tests \<open>!orderCode || !deviceId\<close>) it answers 400;
  an unknown orderCode answers 404; a status other than PAID answers 400 "Order is not PAID";
  an order that is not activated answers 403; a bound, non-empty deviceId that differs from
  the supplied one answers 409 "Device mismatch"; otherwise it answers 200 \<open>{ok: true}\<close>. In
  particular, with the bound deviceId null or empty the comparison is skipped and every
  supplied deviceId validates.
\<close>

theorem validate_cases:
  "(\<not> truthy_num (body_orderCode req) \<or> \<not> truthy_str (body_deviceId req) \<longrightarrow>
      snd (validate req st) = Json 400 (Error ''orderCode & deviceId required''))
   \<and> (\<forall>c d. body_orderCode req = Some c \<and> c \<noteq> 0 \<and> body_deviceId req = Some d \<and> d \<noteq> [] \<longrightarrow>
        (findOne_orderCode st c = None \<longrightarrow>
           snd (validate req st) = Json 404 (Error ''Order not found''))
      \<and> (\<forall>ord. findOne_orderCode st c = Some ord \<longrightarrow>
           (status ord \<noteq> PAID \<longrightarrow>
              snd (validate req st) = Json 400 (Error ''Order is not PAID''))
         \<and> (status ord = PAID \<and> \<not> activation_isActivated ord \<longrightarrow>
              snd (validate req st) = Json 403 (Error ''Order not activated yet''))
         \<and> (\<forall>a b. status ord = PAID \<and> activation ord = Some a \<and> isActivated a
                  \<and> deviceId a = Some b \<and> b \<noteq> [] \<and> b \<noteq> d \<longrightarrow>
              snd (validate req st) = Json 409 (Error ''Device mismatch''))
         \<and> (\<forall>a. status ord = PAID \<and> activation ord = Some a \<and> isActivated a
                  \<and> (deviceId a = None \<or> deviceId a = Some [] \<or> deviceId a = Some d) \<longrightarrow>
              snd (validate req st) = Json 200 OkBody)))"
proof (intro conjI allI impI)
  assume "\<not> truthy_num (body_orderCode req) \<or> \<not> truthy_str (body_deviceId req)"
  then show "snd (validate req st) = Json 400 (Error ''orderCode & deviceId required'')"
    by (auto simp: validate_def)
next
  fix c d
  assume p: "body_orderCode req = Some c \<and> c \<noteq> 0 \<and> body_deviceId req = Some d \<and> d \<noteq> []"
    and n: "findOne_orderCode st c = None"
  then show "snd (validate req st) = Json 404 (Error ''Order not found'')"
    by (simp add: validate_def truthy_num_def truthy_str_def)
next
  fix c d ord
  assume p: "body_orderCode req = Some c \<and> c \<noteq> 0 \<and> body_deviceId req = Some d \<and> d \<noteq> []"
    and f: "findOne_orderCode st c = Some ord"
  note v = validate_found [of req c d st ord]
  { assume "status ord \<noteq> PAID"
    with p f v show "snd (validate req st) = Json 400 (Error ''Order is not PAID'')" by simp }
  { assume "status ord = PAID \<and> \<not> activation_isActivated ord"
    with p f v show "snd (validate req st) = Json 403 (Error ''Order not activated yet'')" by simp }
  { fix a b
    assume "status ord = PAID \<and> activation ord = Some a \<and> isActivated a
             \<and> deviceId a = Some b \<and> b \<noteq> [] \<and> b \<noteq> d"
    with p f v show "snd (validate req st) = Json 409 (Error ''Device mismatch'')"
      by (simp add: activation_isActivated_def truthy_str_def) }
  { fix a
    assume "status ord = PAID \<and> activation ord = Some a \<and> isActivated a
             \<and> (deviceId a = None \<or> deviceId a = Some [] \<or> deviceId a = Some d)"
    with p f v show "snd (validate req st) = Json 200 OkBody"
      by (auto simp: activation_isActivated_def truthy_str_def) }
qed

theorem validate_cases_witness:
  "snd (validate (example_request (Some 42) (Some ''dev-123'')) activated_db) = Json 200 OkBody
   \<and> snd (validate (example_request (Some 42) (Some ''dev-999'')) activated_db)
       = Json 409 (Error ''Device mismatch'')
   \<and> snd (validate (example_request (Some 42) (Some ''dev-123'')) paid_db)
       = Json 403 (Error ''Order not activated yet'')"
proof -
  let ?r = "example_request (Some 42) (Some ''dev-123'')"
  let ?r' = "example_request (Some 42) (Some ''dev-999'')"
  have g: "findOne_orderCode activated_db 42 = Some activated_order"
    by (simp add: findOne_orderCode_def example_defs)
  have f: "findOne_orderCode paid_db 42 = Some paid_order"
    by (simp add: findOne_orderCode_def example_defs)
  have b: "body_orderCode ?r = Some 42 \<and> (42::int) \<noteq> 0 \<and> body_deviceId ?r = Some ''dev-123''
             \<and> ''dev-123'' \<noteq> []"
    by (simp add: example_request_def)
  have b': "body_orderCode ?r' = Some 42 \<and> (42::int) \<noteq> 0 \<and> body_deviceId ?r' = Some ''dev-999''
             \<and> ''dev-999'' \<noteq> []"
    by (simp add: example_request_def)
  have same: "status activated_order = PAID
      \<and> activation activated_order = Some \<lparr>isActivated = True, activatedAt = Some 6,
                        deviceId = Some ''dev-123'', ip = Some ''10.0.0.1''\<rparr>
      \<and> isActivated \<lparr>isActivated = True, activatedAt = Some 6,
                        deviceId = Some ''dev-123'', ip = Some ''10.0.0.1''\<rparr>
      \<and> (deviceId \<lparr>isActivated = True, activatedAt = Some 6,
                        deviceId = Some ''dev-123'', ip = Some ''10.0.0.1''\<rparr> = None
         \<or> deviceId \<lparr>isActivated = True, activatedAt = Some 6,
                        deviceId = Some ''dev-123'', ip = Some ''10.0.0.1''\<rparr> = Some []
         \<or> deviceId \<lparr>isActivated = True, activatedAt = Some 6,
                        deviceId = Some ''dev-123'', ip = Some ''10.0.0.1''\<rparr> = Some ''dev-123'')"
    by (simp add: example_defs)
  have other: "status activated_order = PAID
      \<and> activation activated_order = Some \<lparr>isActivated = True, activatedAt = Some 6,
                        deviceId = Some ''dev-123'', ip = Some ''10.0.0.1''\<rparr>
      \<and> isActivated \<lparr>isActivated = True, activatedAt = Some 6,
                        deviceId = Some ''dev-123'', ip = Some ''10.0.0.1''\<rparr>
      \<and> deviceId \<lparr>isActivated = True, activatedAt = Some 6,
                        deviceId = Some ''dev-123'', ip = Some ''10.0.0.1''\<rparr> = Some ''dev-123''
      \<and> ''dev-123'' \<noteq> [] \<and> ''dev-123'' \<noteq> ''dev-999''"
    by (simp add: example_defs)
  have p: "status paid_order = PAID \<and> \<not> activation_isActivated paid_order"
    by (simp add: activation_isActivated_def example_defs)
  note s1 = validate_cases [of ?r activated_db, THEN conjunct2,
      THEN spec [where x = 42], THEN spec [where x = "''dev-123''"], THEN mp, OF b, THEN conjunct2,
      THEN spec [where x = activated_order], THEN mp, OF g,
      THEN conjunct2, THEN conjunct2, THEN conjunct2, THEN spec, THEN mp, OF same]
  note s2 = validate_cases [of ?r' activated_db, THEN conjunct2,
      THEN spec [where x = 42], THEN spec [where x = "''dev-999''"], THEN mp, OF b', THEN conjunct2,
      THEN spec [where x = activated_order], THEN mp, OF g,
      THEN conjunct2, THEN conjunct2, THEN conjunct1, THEN spec, THEN spec, THEN mp, OF other]
  note s3 = validate_cases [of ?r paid_db, THEN conjunct2,
      THEN spec [where x = 42], THEN spec [where x = "''dev-123''"], THEN mp, OF b, THEN conjunct2,
      THEN spec [where x = paid_order], THEN mp, OF f,
      THEN conjunct2, THEN conjunct1, THEN mp, OF p]
  from s1 s2 s3 show ?thesis by simp
qed

section \<open>Activate\<close>

lemma activate_missing:
  "\<not> truthy_num (body_orderCode req) \<Longrightarrow>
     activate now req st = (st, Json 400 (Error ''orderCode is required''))"
  by (simp add: activate_def activate_load_def)

lemma activate_not_found:
  "body_orderCode req = Some c \<Longrightarrow> c \<noteq> 0 \<Longrightarrow> findOne_orderCode st c = None \<Longrightarrow>
     activate now req st = (st, Json 404 (Error ''Order not found''))"
  by (simp add: activate_def activate_load_def truthy_num_def)

lemma activate_found:
  "body_orderCode req = Some c \<Longrightarrow> c \<noteq> 0 \<Longrightarrow> findOne_orderCode st c = Some ord \<Longrightarrow>
     activate now req st = activate_finish now req (populate st ord) st"
  by (simp add: activate_def activate_load_def truthy_num_def)

lemma finish_not_paid:
  "status ord \<noteq> PAID \<Longrightarrow>
     activate_finish now req (ord, cd) st = (st, Json 400 (Error ''Order is not PAID''))"
  by (simp add: activate_finish_def)

lemma finish_already:
  "status ord = PAID \<Longrightarrow> activation ord = Some a \<Longrightarrow> isActivated a \<Longrightarrow>
     activate_finish now req (ord, cd) st =
       (st, Json 409 (AlreadyActivatedBody ''Order already activated'' (activatedAt a) (deviceId a)))"
  by (simp add: activate_finish_def activation_isActivated_def)

lemma finish_first:
  "status ord = PAID \<Longrightarrow> \<not> activation_isActivated ord \<Longrightarrow>
     activate_finish now req (ord, cd) st =
       (updateById_order (oid ord) (\<lambda>d. d\<lparr>activation := Some (activated_with now req)\<rparr>) st,
        Json 200 (ActivateBody (oid ord) (orderCode ord) (deviceId (activated_with now req)) (Some now)
          (case cd of None \<Rightarrow> None
           | Some c \<Rightarrow> if driveLink c = [] then None else Some (driveLink c))))"
  by (simp add: activate_finish_def activated_with_def or_else_def truthy_str_def Let_def
           split: option.split)

lemma updateById_order_distinct:
  "distinct (map oid (orders st)) \<Longrightarrow>
     updateById_order i f st = st\<lparr>orders := map (\<lambda>d. if oid d = i then f d else d) (orders st)\<rparr>"
  by (simp add: updateById_order_def update_first_distinct)

lemma findOne_after_save:
  assumes "findOne_orderCode st c = Some ord" and "\<And>d. orderCode (f d) = orderCode d"
  shows "findOne_orderCode (st\<lparr>orders := map (\<lambda>d. if oid d = oid ord then f d else d) (orders st)\<rparr>) c
           = Some (f ord)"
proof -
  have "find (\<lambda>d. orderCode d = c) (map (\<lambda>d. if oid d = oid ord then f d else d) (orders st))
          = map_option (\<lambda>d. if oid d = oid ord then f d else d) (find (\<lambda>d. orderCode d = c) (orders st))"
    by (rule find_map_key) (simp add: assms(2))
  with assms(1) show ?thesis by (simp add: findOne_orderCode_def)
qed

lemma findOne_after_updateById:
  assumes "distinct (map oid (orders st))" "findOne_orderCode st c = Some ord"
    and "\<And>d. orderCode (f d) = orderCode d"
  shows "findOne_orderCode (updateById_order (oid ord) f st) c = Some (f ord)"
  by (simp add: updateById_order_distinct [OF assms(1)] findOne_after_save [OF assms(2)] assms(3))

lemma findOne_orderCode_field: "findOne_orderCode st c = Some ord \<Longrightarrow> orderCode ord = c"
  by (auto simp: findOne_orderCode_def dest: find_Some_mem)

lemma request_ip_forwarded: "x_forwarded_for req = HString h \<Longrightarrow> h \<noteq> [] \<Longrightarrow> request_ip req = Some h"
  by (simp add: request_ip_def header_string_def or_else_def truthy_str_def)

lemma request_ip_connection:
  "x_forwarded_for req = HUndefined \<Longrightarrow> remoteAddress req = Some a \<Longrightarrow> a \<noteq> [] \<Longrightarrow>
     request_ip req = Some a"
  by (simp add: request_ip_def header_string_def or_else_def truthy_str_def)

lemma activate_body_only_first:
  assumes "snd (activate now req st) = Json n (ActivateBody i c dv t l)"
  shows "\<exists>ord. findOne_orderCode st c = Some ord \<and> body_orderCode req = Some c \<and> c \<noteq> 0
           \<and> status ord = PAID \<and> \<not> activation_isActivated ord \<and> n = 200"
proof (cases "truthy_num (body_orderCode req)")
  case False
  with assms show ?thesis by (simp add: activate_missing)
next
  case True
  then obtain c' where c': "body_orderCode req = Some c'" "c' \<noteq> 0"
    by (auto simp: truthy_num_def split: option.splits)
  show ?thesis
  proof (cases "findOne_orderCode st c'")
    case None
    with c' assms show ?thesis by (simp add: activate_not_found)
  next
    case (Some ord)
    note fin = activate_found [OF c' Some, of now]
    have oc: "orderCode ord = c'" using Some by (rule findOne_orderCode_field)
    show ?thesis
    proof (cases "status ord = PAID")
      case False
      with assms fin show ?thesis by (simp add: populate_def finish_not_paid)
    next
      case True
      show ?thesis
      proof (cases "activation_isActivated ord")
        case act: True
        then obtain a where "activation ord = Some a" "isActivated a"
          by (auto simp: activation_isActivated_def split: option.splits)
        with assms fin True show ?thesis by (simp add: populate_def finish_already)
      next
        case False
        with assms fin True c' Some oc show ?thesis by (simp add: populate_def finish_first)
      qed
    qed
  qed
qed


text \<open>
  C3. Activate(orderCode, deviceId?) is the following case analysis. A missing orderCode
  (absent, or falsy: the handler tests \<open>!orderCode\<close>) answers 400; no order with that
  orderCode answers 404; a status other than PAID answers 400 "Order is not PAID"; an order
  already activated answers 409 with the stored activatedAt and deviceId, and the database is
  unchanged in all these cases. Otherwise the call answers 200 with the catalog item's
  driveLink (null when the item or its link is missing), and writes the activation
  isActivated = true, activatedAt = now, deviceId = the given value or null, ip = the
  x-forwarded-for header when present, else the connection address; with identities unique,
  exactly the order found gets it. A response body that carries a driveLink occurs only on
  this first activation of a PAID order, never on the conflict.
\<close>

theorem activate_cases:
  "(\<not> truthy_num (body_orderCode req) \<longrightarrow>
      activate now req st = (st, Json 400 (Error ''orderCode is required'')))
   \<and> (\<forall>c. body_orderCode req = Some c \<and> c \<noteq> 0 \<longrightarrow>
        (findOne_orderCode st c = None \<longrightarrow>
           activate now req st = (st, Json 404 (Error ''Order not found'')))
      \<and> (\<forall>ord. findOne_orderCode st c = Some ord \<longrightarrow>
           (status ord \<noteq> PAID \<longrightarrow>
              activate now req st = (st, Json 400 (Error ''Order is not PAID'')))
         \<and> (\<forall>a. status ord = PAID \<and> activation ord = Some a \<and> isActivated a \<longrightarrow>
              activate now req st =
                (st, Json 409 (AlreadyActivatedBody ''Order already activated''
                                 (activatedAt a) (deviceId a))))
         \<and> (status ord = PAID \<and> \<not> activation_isActivated ord \<longrightarrow>
              (let a' = \<lparr>isActivated = True, activatedAt = Some now,
                         deviceId = (if truthy_str (body_deviceId req) then body_deviceId req
                                     else None),
                         ip = request_ip req\<rparr>
               in snd (activate now req st) =
                    Json 200 (ActivateBody (oid ord) c (deviceId a') (Some now)
                      (case findById_code st (code ord) of None \<Rightarrow> None
                       | Some cd \<Rightarrow> if driveLink cd = [] then None else Some (driveLink cd)))
                \<and> fst (activate now req st) =
                    updateById_order (oid ord) (\<lambda>d. d\<lparr>activation := Some a'\<rparr>) st
                \<and> (distinct (map oid (orders st)) \<longrightarrow>
                     fst (activate now req st) =
                       st\<lparr>orders := map (\<lambda>d. if oid d = oid ord then d\<lparr>activation := Some a'\<rparr>
                                             else d) (orders st)\<rparr>
                   \<and> findOne_orderCode (fst (activate now req st)) c
                       = Some (ord\<lparr>activation := Some a'\<rparr>))))))
   \<and> (\<forall>h. x_forwarded_for req = HString h \<and> h \<noteq> [] \<longrightarrow> request_ip req = Some h)
   \<and> (\<forall>a. x_forwarded_for req = HUndefined \<and> remoteAddress req = Some a \<and> a \<noteq> [] \<longrightarrow>
         request_ip req = Some a)
   \<and> (\<forall>n i c dv t l. snd (activate now req st) = Json n (ActivateBody i c dv t l) \<longrightarrow>
         n = 200 \<and> (\<exists>ord. findOne_orderCode st c = Some ord \<and> status ord = PAID
                          \<and> \<not> activation_isActivated ord))"
proof (intro conjI allI impI)
  assume "\<not> truthy_num (body_orderCode req)"
  then show "activate now req st = (st, Json 400 (Error ''orderCode is required''))"
    by (rule activate_missing)
next
  fix c
  assume "body_orderCode req = Some c \<and> c \<noteq> 0" "findOne_orderCode st c = None"
  then show "activate now req st = (st, Json 404 (Error ''Order not found''))"
    by (simp add: activate_not_found)
next
  fix c ord
  assume c: "body_orderCode req = Some c \<and> c \<noteq> 0" and f: "findOne_orderCode st c = Some ord"
  then have fin: "activate now req st = activate_finish now req (ord, findById_code st (code ord)) st"
    by (simp add: activate_found populate_def)
  have oc: "orderCode ord = c" using f by (rule findOne_orderCode_field)
  { assume "status ord \<noteq> PAID"
    then show "activate now req st = (st, Json 400 (Error ''Order is not PAID''))"
      by (simp add: fin finish_not_paid) }
  { fix a
    assume "status ord = PAID \<and> activation ord = Some a \<and> isActivated a"
    then show "activate now req st =
        (st, Json 409 (AlreadyActivatedBody ''Order already activated'' (activatedAt a) (deviceId a)))"
      by (simp add: fin finish_already) }
  { assume p: "status ord = PAID \<and> \<not> activation_isActivated ord"
    have r: "activate now req st =
       (updateById_order (oid ord) (\<lambda>d. d\<lparr>activation := Some (activated_with now req)\<rparr>) st,
        Json 200 (ActivateBody (oid ord) c (deviceId (activated_with now req)) (Some now)
          (case findById_code st (code ord) of None \<Rightarrow> None
           | Some cd \<Rightarrow> if driveLink cd = [] then None else Some (driveLink cd))))"
      using p by (simp add: fin finish_first oc)
    have d: "distinct (map oid (orders st)) \<longrightarrow>
        fst (activate now req st) =
          st\<lparr>orders := map (\<lambda>d. if oid d = oid ord then d\<lparr>activation := Some (activated_with now req)\<rparr>
                                else d) (orders st)\<rparr>
        \<and> findOne_orderCode (fst (activate now req st)) c
            = Some (ord\<lparr>activation := Some (activated_with now req)\<rparr>)"
    proof
      assume dis: "distinct (map oid (orders st))"
      have e: "fst (activate now req st) =
          st\<lparr>orders := map (\<lambda>d. if oid d = oid ord then d\<lparr>activation := Some (activated_with now req)\<rparr>
                                else d) (orders st)\<rparr>"
        by (simp add: r updateById_order_distinct [OF dis])
      have "findOne_orderCode (st\<lparr>orders := map (\<lambda>d. if oid d = oid ord
                 then d\<lparr>activation := Some (activated_with now req)\<rparr> else d) (orders st)\<rparr>) c
              = Some (ord\<lparr>activation := Some (activated_with now req)\<rparr>)"
        by (rule findOne_after_save [OF f]) simp
      with e show "fst (activate now req st) =
          st\<lparr>orders := map (\<lambda>d. if oid d = oid ord then d\<lparr>activation := Some (activated_with now req)\<rparr>
                                else d) (orders st)\<rparr>
        \<and> findOne_orderCode (fst (activate now req st)) c
            = Some (ord\<lparr>activation := Some (activated_with now req)\<rparr>)"
        by simp
    qed
    have r1: "snd (activate now req st) =
        Json 200 (ActivateBody (oid ord) c (deviceId (activated_with now req)) (Some now)
          (case findById_code st (code ord) of None \<Rightarrow> None
           | Some cd \<Rightarrow> if driveLink cd = [] then None else Some (driveLink cd)))"
      by (simp add: r)
    have r2: "fst (activate now req st) =
        updateById_order (oid ord) (\<lambda>d. d\<lparr>activation := Some (activated_with now req)\<rparr>) st"
      by (simp add: r)
    from r1 r2 d show "let a' = \<lparr>isActivated = True, activatedAt = Some now,
                         deviceId = (if truthy_str (body_deviceId req) then body_deviceId req
                                     else None),
                         ip = request_ip req\<rparr>
               in snd (activate now req st) =
                    Json 200 (ActivateBody (oid ord) c (deviceId a') (Some now)
                      (case findById_code st (code ord) of None \<Rightarrow> None
                       | Some cd \<Rightarrow> if driveLink cd = [] then None else Some (driveLink cd)))
                \<and> fst (activate now req st) =
                    updateById_order (oid ord) (\<lambda>d. d\<lparr>activation := Some a'\<rparr>) st
                \<and> (distinct (map oid (orders st)) \<longrightarrow>
                     fst (activate now req st) =
                       st\<lparr>orders := map (\<lambda>d. if oid d = oid ord then d\<lparr>activation := Some a'\<rparr>
                                             else d) (orders st)\<rparr>
                   \<and> findOne_orderCode (fst (activate now req st)) c
                       = Some (ord\<lparr>activation := Some a'\<rparr>))"
      unfolding Let_def activated_with_def by blast }
next
  fix h
  assume "x_forwarded_for req = HString h \<and> h \<noteq> []"
  then show "request_ip req = Some h" by (simp add: request_ip_forwarded)
next
  fix a
  assume "x_forwarded_for req = HUndefined \<and> remoteAddress req = Some a \<and> a \<noteq> []"
  then show "request_ip req = Some a" by (simp add: request_ip_connection)
next
  fix n i c dv t l
  assume a: "snd (activate now req st) = Json n (ActivateBody i c dv t l)"
  from activate_body_only_first [OF a] show "n = 200" by blast
  from activate_body_only_first [OF a]
  show "\<exists>ord. findOne_orderCode st c = Some ord \<and> status ord = PAID \<and> \<not> activation_isActivated ord"
    by blast
qed

theorem activate_cases_witness:
  "activate 9 (example_request (Some 42) (Some ''dev-123'')) paid_db =
     (\<lparr>orders = [paid_order\<lparr>activation := Some \<lparr>isActivated = True, activatedAt = Some 9,
                     deviceId = Some ''dev-123'', ip = Some ''10.0.0.1''\<rparr>\<rparr>],
       codes = [example_code]\<rparr>,
      Json 200 (ActivateBody 1 42 (Some ''dev-123'') (Some 9) (Some ''https://drive.example/x'')))
   \<and> activate 9 (example_request (Some 42) (Some ''dev-999'')) activated_db =
       (activated_db,
        Json 409 (AlreadyActivatedBody ''Order already activated'' (Some 6) (Some ''dev-123'')))"
proof -
  let ?r = "example_request (Some 42) (Some ''dev-123'')"
  let ?r' = "example_request (Some 42) (Some ''dev-999'')"
  have f: "findOne_orderCode paid_db 42 = Some paid_order"
    by (simp add: findOne_orderCode_def example_defs)
  have g: "findOne_orderCode activated_db 42 = Some activated_order"
    by (simp add: findOne_orderCode_def example_defs)
  have p: "status paid_order = PAID \<and> \<not> activation_isActivated paid_order"
    by (simp add: activation_isActivated_def example_defs)
  have q: "status activated_order = PAID
      \<and> activation activated_order = Some \<lparr>isActivated = True, activatedAt = Some 6,
                        deviceId = Some ''dev-123'', ip = Some ''10.0.0.1''\<rparr>
      \<and> isActivated \<lparr>isActivated = True, activatedAt = Some 6,
                        deviceId = Some ''dev-123'', ip = Some ''10.0.0.1''\<rparr>"
    by (simp add: example_defs)
  have d: "distinct (map oid (orders paid_db))" by (simp add: example_defs)
  have b: "body_orderCode ?r = Some 42 \<and> (42::int) \<noteq> 0"
    by (simp add: example_request_def)
  have b': "body_orderCode ?r' = Some 42 \<and> (42::int) \<noteq> 0"
    by (simp add: example_request_def)
  note s1 = activate_cases [of ?r 9 paid_db, THEN conjunct2, THEN conjunct1,
      THEN spec [where x = 42], THEN mp, OF b, THEN conjunct2,
      THEN spec [where x = paid_order], THEN mp, OF f,
      THEN conjunct2, THEN conjunct2, THEN mp, OF p, unfolded Let_def]
  note s2 = activate_cases [of ?r' 9 activated_db, THEN conjunct2, THEN conjunct1,
      THEN spec [where x = 42], THEN mp, OF b', THEN conjunct2,
      THEN spec [where x = activated_order], THEN mp, OF g,
      THEN conjunct2, THEN conjunct1, THEN spec, THEN mp, OF q]
  have i: "request_ip ?r = Some ''10.0.0.1''"
    by (simp add: request_ip_def header_string_def or_else_def truthy_str_def example_request_def)
  have l: "findById_code paid_db (code paid_order) = Some example_code"
    by (simp add: findById_code_def example_defs)
  have t: "body_deviceId ?r = Some ''dev-123''"
    by (simp add: example_request_def)
  have x: "oid paid_order = 1 \<and> driveLink example_code = ''https://drive.example/x''"
    by (simp add: example_defs)
  from s1 [THEN conjunct1]
  have r1: "snd (activate 9 ?r paid_db) =
      Json 200 (ActivateBody 1 42 (Some ''dev-123'') (Some 9) (Some ''https://drive.example/x''))"
    by (simp add: i l t x truthy_str_def)
  from s1 [THEN conjunct2, THEN conjunct2, THEN mp, OF d, THEN conjunct1]
  have r2: "fst (activate 9 ?r paid_db) =
      \<lparr>orders = [paid_order\<lparr>activation := Some \<lparr>isActivated = True, activatedAt = Some 9,
                     deviceId = Some ''dev-123'', ip = Some ''10.0.0.1''\<rparr>\<rparr>],
       codes = [example_code]\<rparr>"
    by (simp add: i t paid_db_def truthy_str_def)
  from r1 r2 s2 show ?thesis by (simp add: prod_eq_iff)
qed

section \<open>Return trip\<close>

lemma string_of_int_42: "string_of_int 42 = ''42''"
  by (simp add: string_of_int_def string_of_nat.simps)

lemma findById_after_update:
  assumes "findById_order st i = Some ord" and "\<And>d. oid (f d) = oid d"
  shows "findById_order (updateById_order i f st) i = Some (f ord)"
proof -
  have "find (\<lambda>d. oid d = i) (update_first (\<lambda>d. oid d = i) f (orders st))
          = map_option f (find (\<lambda>d. oid d = i) (orders st))"
    by (rule find_update_first_same) (simp add: assms(2))
  with assms(1) show ?thesis by (simp add: findById_order_def updateById_order_def)
qed

lemma findById_other_update:
  assumes "j \<noteq> i" and "\<And>d. oid (f d) = oid d"
  shows "findById_order (updateById_order i f st) j = findById_order st j"
proof -
  have "find (\<lambda>d. oid d = j) (update_first (\<lambda>d. oid d = i) f (orders st))
          = find (\<lambda>d. oid d = j) (orders st)"
    by (rule find_update_first_other) (use assms in auto)
  then show ?thesis by (simp add: findById_order_def updateById_order_def)
qed

lemma findById_order_field: "findById_order st i = Some ord \<Longrightarrow> oid ord = i"
  by (auto simp: findById_order_def dest: find_Some_mem)

lemma order_success_verified:
  assumes "findById_order st i = Some ord" "PAYOS_CHECKSUM_KEY e = Some key"
    "q_status q = Some ''PAID''" "q_sig q = Some (H key (string_of_int (orderCode ord) @ '':PAID''))"
  shows "order_success H e now i q st =
           (updateById_order i (\<lambda>d. d\<lparr>status := PAID, paidAt := Some now\<rparr>) st,
            RenderOrderStatus (ord\<lparr>status := PAID, paidAt := Some now\<rparr>,
                               findById_code st (code ord)) True)"
  using assms findById_order_field [OF assms(1)]
  by (simp add: order_success_def sig_message_def template_str_def populate_def)

lemma order_success_unverified:
  assumes "findById_order st i = Some ord"
    and "\<not> (\<exists>key. PAYOS_CHECKSUM_KEY e = Some key \<and> q_status q = Some ''PAID''
              \<and> q_sig q = Some (H key (string_of_int (orderCode ord) @ '':PAID'')))"
  shows "order_success H e now i q st =
           (st, RenderOrderStatus (ord, findById_code st (code ord)) True)"
  using assms
  by (auto simp: order_success_def sig_message_def template_str_def populate_def
           split: option.splits)

text \<open>
  C1. For every stored order and every return-trip request GET /order/:id/success: the
  order is set to PAID and paidAt is stamped with the current time if and only if the query
  parameter status is "PAID" and the query parameter sig equals the hex HMAC-SHA256 of
  \<open>`${order.orderCode}:${status}`\<close> under the checksum secret; then the stored order
  differs from before in these two fields only, and every other order and the catalog are
  as before. In every other case (another status, another sig, or \<open>createHmac\<close> throwing
  because the secret is unset) the database is unchanged. In both cases the page
  \<open>order_status\<close> is rendered with the order.
\<close>

theorem order_success_verification:
  "findById_order st i = Some ord \<Longrightarrow>
     ((\<exists>key. PAYOS_CHECKSUM_KEY e = Some key \<and> q_status q = Some ''PAID''
            \<and> q_sig q = Some (H key (string_of_int (orderCode ord) @ '':PAID''))) \<longrightarrow>
         snd (order_success H e now i q st) =
           RenderOrderStatus (ord\<lparr>status := PAID, paidAt := Some now\<rparr>,
                              findById_code st (code ord)) True
       \<and> findById_order (fst (order_success H e now i q st)) i
           = Some (ord\<lparr>status := PAID, paidAt := Some now\<rparr>)
       \<and> (\<forall>j. j \<noteq> i \<longrightarrow> findById_order (fst (order_success H e now i q st)) j
                            = findById_order st j)
       \<and> codes (fst (order_success H e now i q st)) = codes st)
   \<and> (\<not> (\<exists>key. PAYOS_CHECKSUM_KEY e = Some key \<and> q_status q = Some ''PAID''
              \<and> q_sig q = Some (H key (string_of_int (orderCode ord) @ '':PAID''))) \<longrightarrow>
         order_success H e now i q st =
           (st, RenderOrderStatus (ord, findById_code st (code ord)) True))"
proof (intro conjI impI allI)
  assume f: "findById_order st i = Some ord"
  assume "\<exists>key. PAYOS_CHECKSUM_KEY e = Some key \<and> q_status q = Some ''PAID''
            \<and> q_sig q = Some (H key (string_of_int (orderCode ord) @ '':PAID''))"
  then obtain key where k: "PAYOS_CHECKSUM_KEY e = Some key" "q_status q = Some ''PAID''"
      "q_sig q = Some (H key (string_of_int (orderCode ord) @ '':PAID''))"
    by blast
  note r = order_success_verified [where H = H and now = now, OF f k]
  show "snd (order_success H e now i q st) =
           RenderOrderStatus (ord\<lparr>status := PAID, paidAt := Some now\<rparr>,
                              findById_code st (code ord)) True"
    by (simp add: r)
  show "findById_order (fst (order_success H e now i q st)) i
           = Some (ord\<lparr>status := PAID, paidAt := Some now\<rparr>)"
    by (simp add: r findById_after_update [OF f])
  show "codes (fst (order_success H e now i q st)) = codes st"
    by (simp add: r updateById_order_def)
  fix j assume "j \<noteq> i"
  then show "findById_order (fst (order_success H e now i q st)) j = findById_order st j"
    by (simp add: r findById_other_update)
next
  assume f: "findById_order st i = Some ord"
  assume "\<not> (\<exists>key. PAYOS_CHECKSUM_KEY e = Some key \<and> q_status q = Some ''PAID''
              \<and> q_sig q = Some (H key (string_of_int (orderCode ord) @ '':PAID'')))"
  with f show "order_success H e now i q st =
           (st, RenderOrderStatus (ord, findById_code st (code ord)) True)"
    by (rule order_success_unverified)
qed

theorem order_success_verification_witness:
  "findById_order (fst (order_success example_hmac example_env 9 1 (example_query ''k/42:PAID'')
        pending_db)) 1 = Some (example_order\<lparr>status := PAID, paidAt := Some 9\<rparr>)
   \<and> order_success example_hmac example_env 9 1 (example_query ''forged'') pending_db
       = (pending_db, RenderOrderStatus (example_order, Some example_code) True)
   \<and> order_success example_hmac (example_env\<lparr>PAYOS_CHECKSUM_KEY := None\<rparr>) 9 1
         (example_query ''k/42:PAID'') pending_db
       = (pending_db, RenderOrderStatus (example_order, Some example_code) True)"
proof -
  have f: "findById_order pending_db 1 = Some example_order"
    by (simp add: findById_order_def pending_db_def example_defs)
  have c: "findById_code pending_db (code example_order) = Some example_code"
    by (simp add: findById_code_def pending_db_def example_defs)
  have oc: "orderCode example_order = 42" by (simp add: example_defs)
  have good: "\<exists>key. PAYOS_CHECKSUM_KEY example_env = Some key
        \<and> q_status (example_query ''k/42:PAID'') = Some ''PAID''
        \<and> q_sig (example_query ''k/42:PAID'')
            = Some (example_hmac key (string_of_int (orderCode example_order) @ '':PAID''))"
    by (simp add: example_env_def example_query_def example_hmac_def oc string_of_int_42)
  have bad: "\<not> (\<exists>key. PAYOS_CHECKSUM_KEY example_env = Some key
        \<and> q_status (example_query ''forged'') = Some ''PAID''
        \<and> q_sig (example_query ''forged'')
            = Some (example_hmac key (string_of_int (orderCode example_order) @ '':PAID'')))"
    by (simp add: example_env_def example_query_def example_hmac_def oc string_of_int_42)
  have nokey: "\<not> (\<exists>key. PAYOS_CHECKSUM_KEY (example_env\<lparr>PAYOS_CHECKSUM_KEY := None\<rparr>) = Some key
        \<and> q_status (example_query ''k/42:PAID'') = Some ''PAID''
        \<and> q_sig (example_query ''k/42:PAID'')
            = Some (example_hmac key (string_of_int (orderCode example_order) @ '':PAID'')))"
    by simp
  note a = order_success_verification [where H = example_hmac and now = 9 and e = example_env
      and q = "example_query ''k/42:PAID''", OF f, THEN conjunct1, THEN mp, OF good, THEN conjunct2, THEN conjunct1]
  note b = order_success_verification [where H = example_hmac and now = 9 and e = example_env
      and q = "example_query ''forged''", OF f, THEN conjunct2, THEN mp, OF bad]
  note n = order_success_verification [where H = example_hmac and now = 9
      and e = "example_env\<lparr>PAYOS_CHECKSUM_KEY := None\<rparr>"
      and q = "example_query ''k/42:PAID''", OF f, THEN conjunct2, THEN mp, OF nokey]
  from a b n show ?thesis by (simp add: c)
qed

subsection \<open>The signed message determines the orderCode\<close>

lemma digit_inj:
  "d < 10 \<Longrightarrow> d' < 10 \<Longrightarrow> ''0123456789'' ! d = ''0123456789'' ! d' \<Longrightarrow> d = d'"
proof -
  have "distinct ''0123456789''" by simp
  moreover assume "d < 10" "d' < 10" "''0123456789'' ! d = ''0123456789'' ! d'"
  ultimately show ?thesis by (simp add: nth_eq_iff_index_eq)
qed

lemma digit_not_minus: "d < 10 \<Longrightarrow> ''0123456789'' ! d \<noteq> CHR ''-''"
proof -
  assume "d < 10"
  then have "''0123456789'' ! d \<in> set ''0123456789''" by (intro nth_mem) simp
  then show ?thesis by auto
qed

lemma string_of_nat_nonempty: "string_of_nat n \<noteq> []"
  by (subst string_of_nat.simps) simp

lemma string_of_nat_hd: "hd (string_of_nat n) \<noteq> CHR ''-''"
proof (induction n rule: string_of_nat.induct)
  case (1 n)
  show ?case
  proof (cases "n < 10")
    case True
    then show ?thesis by (subst string_of_nat.simps) (simp add: digit_not_minus)
  next
    case False
    with 1 show ?thesis
      by (subst string_of_nat.simps) (simp add: string_of_nat_nonempty)
  qed
qed

lemma string_of_nat_inj: "string_of_nat n = string_of_nat m \<Longrightarrow> n = m"
proof (induction n arbitrary: m rule: string_of_nat.induct)
  case (1 n)
  show ?case
  proof (cases "n < 10")
    case n: True
    show ?thesis
    proof (cases "m < 10")
      case True
      with n "1.prems" show ?thesis
        by (simp add: string_of_nat.simps [of n] string_of_nat.simps [of m] digit_inj)
    next
      case False
      with n "1.prems" show ?thesis
        by (simp add: string_of_nat.simps [of n] string_of_nat.simps [of m]
              string_of_nat_nonempty Cons_eq_append_conv)
    qed
  next
    case n: False
    show ?thesis
    proof (cases "m < 10")
      case True
      with n "1.prems" show ?thesis
        by (simp add: string_of_nat.simps [of n] string_of_nat.simps [of m]
              string_of_nat_nonempty append_eq_Cons_conv)
    next
      case False
      with n "1.prems" have e: "string_of_nat (n div 10) = string_of_nat (m div 10)"
        and d: "''0123456789'' ! (n mod 10) = ''0123456789'' ! (m mod 10)"
        by (simp_all add: string_of_nat.simps [of n] string_of_nat.simps [of m])
      from "1.IH" [OF n e] have "n div 10 = m div 10" .
      moreover from d have "n mod 10 = m mod 10" by (intro digit_inj) simp_all
      ultimately show ?thesis by (metis div_mult_mod_eq)
    qed
  qed
qed

lemma string_of_int_inj: "string_of_int a = string_of_int b \<Longrightarrow> a = b"
proof -
  assume e: "string_of_int a = string_of_int b"
  have neg: "string_of_nat n \<noteq> CHR ''-'' # s" for n s
    using string_of_nat_hd [of n] by (cases "string_of_nat n") auto
  consider "a < 0" "b < 0" | "a < 0" "\<not> b < 0" | "\<not> a < 0" "b < 0" | "\<not> a < 0" "\<not> b < 0"
    by blast
  then show ?thesis
  proof cases
    case 1
    with e have "nat (- a) = nat (- b)" by (simp add: string_of_int_def string_of_nat_inj)
    with 1 show ?thesis by simp
  next
    case 2
    with e neg show ?thesis by (simp add: string_of_int_def) metis
  next
    case 3
    with e neg show ?thesis by (simp add: string_of_int_def)
  next
    case 4
    with e have "nat a = nat b" by (simp add: string_of_int_def string_of_nat_inj)
    with 4 show ?thesis by simp
  qed
qed


lemma order_success_other_order:
  assumes "inj (H key)" "PAYOS_CHECKSUM_KEY e = Some key"
    "findById_order st j = Some ord'" "orderCode ord \<noteq> orderCode ord'"
    "q_sig q = Some (H key (string_of_int (orderCode ord) @ '':PAID''))"
  shows "fst (order_success H e now j q st) = st"
proof -
  have "string_of_int (orderCode ord) @ '':PAID'' \<noteq> string_of_int (orderCode ord') @ '':PAID''"
    using assms(4) by (auto dest: string_of_int_inj)
  with assms(1) have "H key (string_of_int (orderCode ord) @ '':PAID'')
      \<noteq> H key (string_of_int (orderCode ord') @ '':PAID'')"
    by (auto dest: injD)
  with assms(2,5)
  have "\<not> (\<exists>k. PAYOS_CHECKSUM_KEY e = Some k \<and> q_status q = Some ''PAID''
              \<and> q_sig q = Some (H k (string_of_int (orderCode ord') @ '':PAID'')))"
    by auto
  with assms(3) show ?thesis
    by (simp add: order_success_unverified [where ord = ord'])
qed

text \<open>
  C2. The outcome of the return trip does not depend on the query parameter orderCode: two
  requests for the same stored order that differ only in that parameter give the same
  database and the same page, because the HMAC is recomputed over the stored order's
  orderCode. Hence a signature issued for one order, presented on the return URL of an order
  with another orderCode, leaves that order as it was whatever orderCode the query carries
  (for a digest \<open>H key\<close> without collisions; the decimal rendering of the orderCode in the
  message is injective).
\<close>

theorem order_success_ignores_query_orderCode:
  "order_success H e now i (q\<lparr>q_orderCode := a\<rparr>) st
     = order_success H e now i (q\<lparr>q_orderCode := b\<rparr>) st
   \<and> (\<forall>key ord ord' j. inj (H key) \<and> PAYOS_CHECKSUM_KEY e = Some key
          \<and> findById_order st i = Some ord \<and> findById_order st j = Some ord'
          \<and> orderCode ord \<noteq> orderCode ord'
          \<and> q_sig q = Some (H key (string_of_int (orderCode ord) @ '':PAID'')) \<longrightarrow>
        fst (order_success H e now j (q\<lparr>q_orderCode := a\<rparr>) st) = st)"
proof (intro conjI allI impI)
  show "order_success H e now i (q\<lparr>q_orderCode := a\<rparr>) st
     = order_success H e now i (q\<lparr>q_orderCode := b\<rparr>) st"
    by (simp add: order_success_def Let_def split: option.split)
next
  fix key ord ord' j
  assume h: "inj (H key) \<and> PAYOS_CHECKSUM_KEY e = Some key
          \<and> findById_order st i = Some ord \<and> findById_order st j = Some ord'
          \<and> orderCode ord \<noteq> orderCode ord'
          \<and> q_sig q = Some (H key (string_of_int (orderCode ord) @ '':PAID''))"
  show "fst (order_success H e now j (q\<lparr>q_orderCode := a\<rparr>) st) = st"
    by (rule order_success_other_order [where key = key and ord = ord and ord' = ord'])
       (use h in simp_all)
qed

theorem order_success_ignores_query_orderCode_witness:
  "order_success example_hmac example_env 9 1
       ((example_query ''k/42:PAID'')\<lparr>q_orderCode := Some ''42''\<rparr>) two_order_db
     = order_success example_hmac example_env 9 1
       ((example_query ''k/42:PAID'')\<lparr>q_orderCode := Some ''43''\<rparr>) two_order_db
   \<and> fst (order_success example_hmac example_env 9 2
       ((example_query ''k/42:PAID'')\<lparr>q_orderCode := Some ''43''\<rparr>) two_order_db) = two_order_db"
proof -
  note T = order_success_ignores_query_orderCode [where H = example_hmac and e = example_env
      and now = 9 and i = 1 and q = "example_query ''k/42:PAID''" and a = "Some ''43''"
      and b = "Some ''42''" and st = two_order_db]
  have i: "inj (example_hmac ''k'')" by (rule injI) (simp add: example_hmac_def)
  have f: "findById_order two_order_db 1 = Some example_order"
    by (simp add: findById_order_def two_order_db_def second_order_def example_defs)
  have g: "findById_order two_order_db 2 = Some second_order"
    by (simp add: findById_order_def two_order_db_def second_order_def example_defs)
  have k: "PAYOS_CHECKSUM_KEY example_env = Some ''k''
      \<and> orderCode example_order \<noteq> orderCode second_order
      \<and> q_sig (example_query ''k/42:PAID'')
          = Some (example_hmac ''k'' (string_of_int (orderCode example_order) @ '':PAID''))"
    by (simp add: example_env_def example_query_def example_hmac_def second_order_def
          string_of_int_42 example_defs)
  have h: "inj (example_hmac ''k'') \<and> PAYOS_CHECKSUM_KEY example_env = Some ''k''
      \<and> findById_order two_order_db 1 = Some example_order
      \<and> findById_order two_order_db 2 = Some second_order
      \<and> orderCode example_order \<noteq> orderCode second_order
      \<and> q_sig (example_query ''k/42:PAID'')
          = Some (example_hmac ''k'' (string_of_int (orderCode example_order) @ '':PAID''))"
    using i f g k by blast
  note a = T [THEN conjunct1, symmetric]
  note b = T [THEN conjunct2, THEN spec, THEN spec, THEN spec, THEN spec, THEN mp, OF h]
  from a b show ?thesis by blast
qed

section \<open>Activation after the catalog item is gone\<close>

lemma findById_code_deleted:
  "distinct (map sc_id (codes st)) \<Longrightarrow>
     findById_code (fst (admin_codes_delete i st)) i = None"
  by (simp add: findById_code_def admin_codes_delete_def find_delete_first)

lemma findOne_after_codes_delete:
  "findOne_orderCode (fst (admin_codes_delete i st)) c = findOne_orderCode st c"
  by (simp add: findOne_orderCode_def admin_codes_delete_def)

text \<open>
  C10. If the admin deletes the catalog item that a PAID, unactivated order refers to, a
  following Activate for that order still succeeds: it answers 200 with driveLink = null
  and writes the activation (isActivated = true, the device bound) to the order; with
  identities unique, the order found by its orderCode then carries that activation.
\<close>

theorem activate_after_code_deleted:
  "distinct (map sc_id (codes st)) \<Longrightarrow> findOne_orderCode st c = Some ord \<Longrightarrow> c \<noteq> 0 \<Longrightarrow>
   body_orderCode req = Some c \<Longrightarrow> status ord = PAID \<Longrightarrow> \<not> activation_isActivated ord \<Longrightarrow>
   st1 = fst (admin_codes_delete (code ord) st) \<Longrightarrow>
     snd (activate now req st1) =
       Json 200 (ActivateBody (oid ord) c
                   (if truthy_str (body_deviceId req) then body_deviceId req else None)
                   (Some now) None)
     \<and> fst (activate now req st1) =
         updateById_order (oid ord)
           (\<lambda>d. d\<lparr>activation := Some \<lparr>isActivated = True, activatedAt = Some now,
                     deviceId = (if truthy_str (body_deviceId req) then body_deviceId req
                                 else None),
                     ip = request_ip req\<rparr>\<rparr>) st1
     \<and> (distinct (map oid (orders st)) \<longrightarrow>
          findOne_orderCode (fst (activate now req st1)) c =
            Some (ord\<lparr>activation := Some \<lparr>isActivated = True, activatedAt = Some now,
                     deviceId = (if truthy_str (body_deviceId req) then body_deviceId req
                                 else None),
                     ip = request_ip req\<rparr>\<rparr>))"
proof -
  assume d: "distinct (map sc_id (codes st))" and f: "findOne_orderCode st c = Some ord"
    and c: "c \<noteq> 0" and b: "body_orderCode req = Some c"
    and p: "status ord = PAID" "\<not> activation_isActivated ord"
    and s: "st1 = fst (admin_codes_delete (code ord) st)"
  have f1: "findOne_orderCode st1 c = Some ord"
    by (simp add: s findOne_after_codes_delete f)
  have n: "findById_code st1 (code ord) = None"
    by (simp add: s findById_code_deleted [OF d])
  have oc: "orderCode ord = c" using f by (rule findOne_orderCode_field)
  have os: "orders st1 = orders st" by (simp add: s admin_codes_delete_def)
  have e: "activate now req st1 = activate_finish now req (ord, None) st1"
    using activate_found [OF b c f1, of now] by (simp add: populate_def n)
  have r: "activate now req st1 =
      (updateById_order (oid ord) (\<lambda>d. d\<lparr>activation := Some (activated_with now req)\<rparr>) st1,
       Json 200 (ActivateBody (oid ord) c (deviceId (activated_with now req)) (Some now) None))"
    by (simp add: e finish_first [OF p] oc)
  have w: "distinct (map oid (orders st)) \<longrightarrow>
      findOne_orderCode (fst (activate now req st1)) c
        = Some (ord\<lparr>activation := Some (activated_with now req)\<rparr>)"
  proof
    assume "distinct (map oid (orders st))"
    then have "distinct (map oid (orders st1))" by (simp add: os)
    then have "findOne_orderCode
        (updateById_order (oid ord) (\<lambda>d. d\<lparr>activation := Some (activated_with now req)\<rparr>) st1) c
        = Some (ord\<lparr>activation := Some (activated_with now req)\<rparr>)"
      using f1 by (rule findOne_after_updateById) simp
    then show "findOne_orderCode (fst (activate now req st1)) c
        = Some (ord\<lparr>activation := Some (activated_with now req)\<rparr>)"
      by (simp add: r)
  qed
  from r w show ?thesis by (simp add: activated_with_def)
qed

theorem activate_after_code_deleted_witness:
  "activate 9 (example_request (Some 42) (Some ''dev-123''))
       (fst (admin_codes_delete 7 paid_db))
     = (\<lparr>orders = [paid_order\<lparr>activation := Some \<lparr>isActivated = True, activatedAt = Some 9,
                       deviceId = Some ''dev-123'', ip = Some ''10.0.0.1''\<rparr>\<rparr>],
         codes = []\<rparr>,
        Json 200 (ActivateBody 1 42 (Some ''dev-123'') (Some 9) None))"
proof -
  let ?r = "example_request (Some 42) (Some ''dev-123'')"
  have d: "distinct (map sc_id (codes paid_db))" by (simp add: example_defs)
  have f: "findOne_orderCode paid_db 42 = Some paid_order"
    by (simp add: findOne_orderCode_def example_defs)
  have b: "body_orderCode ?r = Some 42" by (simp add: example_request_def)
  have p: "status paid_order = PAID" "\<not> activation_isActivated paid_order"
    by (simp_all add: activation_isActivated_def example_defs)
  have s: "fst (admin_codes_delete 7 paid_db) = fst (admin_codes_delete (code paid_order) paid_db)"
    by (simp add: example_defs)
  have v: "fst (admin_codes_delete 7 paid_db) = \<lparr>orders = [paid_order], codes = []\<rparr>"
    by (simp add: admin_codes_delete_def example_defs)
  have i: "request_ip ?r = Some ''10.0.0.1''"
    by (simp add: request_ip_def header_string_def or_else_def truthy_str_def example_request_def)
  have t: "body_deviceId ?r = Some ''dev-123''" by (simp add: example_request_def)
  have o: "oid paid_order = 1" by (simp add: example_defs)
  note a = activate_after_code_deleted [OF d f _ b p s, of 9]
  have "(42::int) \<noteq> 0" by simp
  from a [OF this] show ?thesis
    by (simp add: prod_eq_iff v i t o truthy_str_def updateById_order_def)
qed

section \<open>Reset\<close>

lemma update_first_no_match: "find P xs = None \<Longrightarrow> update_first P f xs = xs"
  by (induction xs) (auto split: if_splits)

lemma updateById_order_unknown: "findById_order st i = None \<Longrightarrow> updateById_order i f st = st"
  by (simp add: findById_order_def updateById_order_def update_first_no_match)

lemma updateOne_orderCode_unknown:
  "findOne_orderCode st c = None \<Longrightarrow> updateOne_orderCode c f st = st"
  by (simp add: findOne_orderCode_def updateOne_orderCode_def update_first_no_match)

lemma findOne_after_updateOne:
  assumes "findOne_orderCode st c = Some ord" and "\<And>d. orderCode (f d) = orderCode d"
  shows "findOne_orderCode (updateOne_orderCode c f st) c = Some (f ord)"
proof -
  have "find (\<lambda>d. orderCode d = c) (update_first (\<lambda>d. orderCode d = c) f (orders st))
          = map_option f (find (\<lambda>d. orderCode d = c) (orders st))"
    by (rule find_update_first_same) (simp add: assms(2))
  with assms(1) show ?thesis by (simp add: findOne_orderCode_def updateOne_orderCode_def)
qed

lemma api_reset_ok:
  "secret = ADMIN_ACTIVATE_SECRET e \<Longrightarrow> n \<noteq> 0 \<Longrightarrow>
     api_reset_activation e secret (Some n) st =
       (updateOne_orderCode n (\<lambda>d. d\<lparr>activation := None\<rparr>) st, Json 200 OkBody)"
  by (simp add: api_reset_activation_def truthy_num_def)

lemma activate_first_response:
  assumes "body_orderCode req = Some c" "c \<noteq> 0" "findOne_orderCode st c = Some ord"
    "status ord = PAID" "\<not> activation_isActivated ord"
  shows "snd (activate now req st) =
     Json 200 (ActivateBody (oid ord) c
                 (if truthy_str (body_deviceId req) then body_deviceId req else None) (Some now)
                 (case findById_code st (code ord) of None \<Rightarrow> None
                  | Some cd \<Rightarrow> if driveLink cd = [] then None else Some (driveLink cd)))"
  using activate_found [OF assms(1,2,3), of now] findOne_orderCode_field [OF assms(3)]
  by (simp add: populate_def finish_first [OF assms(4,5)] activated_with_def)

lemma handle_reset_is_route:
  "handle H e (Admin cr (ResetActivation i)) st = admin_reset_route e cr (Some i) st"
  by (simp add: admin_reset_route_def)

lemma admin_reset_route_ok:
  "adminAuth e cr \<Longrightarrow> admin_reset_route e cr (Some i) st = admin_reset_activation i st"
  by (simp add: admin_reset_route_def)

lemma findOne_other_updateOne:
  assumes "m \<noteq> n" and "\<And>d. orderCode (f d) = orderCode d"
  shows "findOne_orderCode (updateOne_orderCode n f st) m = findOne_orderCode st m"
proof -
  have "find (\<lambda>d. orderCode d = m) (update_first (\<lambda>d. orderCode d = n) f (orders st))
          = find (\<lambda>d. orderCode d = m) (orders st)"
    by (rule find_update_first_other) (use assms in auto)
  then show ?thesis by (simp add: findOne_orderCode_def updateOne_orderCode_def)
qed

text \<open>
  C9, as the code has it. Reset clears the activation whatever the order's state, on both
  routes, each behind its gate: without the admin's basic-auth credentials
  POST /admin/activations/:id/reset answers the challenge, and with an x-admin-secret
  header that differs from the configured secret POST /api/admin/reset-activation answers
  401; neither then changes anything. Past its gate the admin UI route writes the default
  sub-record, isActivated = false with activatedAt, deviceId and ip null, and has no error
  condition beyond order-not-found: an id that does not cast makes the handler reject, an
  unknown id changes nothing and is redirected like any other. Past its gate the API route
  answers 400 when orderCode is missing; otherwise it answers ok and sets the whole
  activation sub-record to null, or changes nothing when no order has that orderCode. On
  both routes every other order and the catalog are as before. After either reset of a PAID
  order, a following Activate succeeds again with 200 and no AlreadyActivated.
\<close>

theorem reset_clears_activation:
  "(\<not> adminAuth e cr \<longrightarrow> admin_reset_route e cr p st = (st, Challenge))
   \<and> (adminAuth e cr \<and> p = None \<longrightarrow> admin_reset_route e cr p st = (st, Unhandled))
   \<and> (\<forall>i. adminAuth e cr \<and> p = Some i \<longrightarrow>
         snd (admin_reset_route e cr p st) = Redirect (Some ''back'')
       \<and> (findById_order st i = None \<longrightarrow> fst (admin_reset_route e cr p st) = st)
       \<and> (\<forall>ord. findById_order st i = Some ord \<longrightarrow>
             findById_order (fst (admin_reset_route e cr p st)) i =
               Some (ord\<lparr>activation := Some \<lparr>isActivated = False, activatedAt = None,
                                              deviceId = None, ip = None\<rparr>\<rparr>))
       \<and> (\<forall>j. j \<noteq> i \<longrightarrow>
             findById_order (fst (admin_reset_route e cr p st)) j = findById_order st j)
       \<and> codes (fst (admin_reset_route e cr p st)) = codes st)
   \<and> (secret \<noteq> ADMIN_ACTIVATE_SECRET e \<longrightarrow>
         api_reset_activation e secret c st = (st, Json 401 (Error ''unauthorized'')))
   \<and> (secret = ADMIN_ACTIVATE_SECRET e \<and> \<not> truthy_num c \<longrightarrow>
         api_reset_activation e secret c st = (st, Json 400 (Error ''orderCode required'')))
   \<and> (\<forall>n. secret = ADMIN_ACTIVATE_SECRET e \<and> c = Some n \<and> n \<noteq> 0 \<longrightarrow>
         snd (api_reset_activation e secret c st) = Json 200 OkBody
       \<and> (findOne_orderCode st n = None \<longrightarrow> fst (api_reset_activation e secret c st) = st)
       \<and> (\<forall>ord. findOne_orderCode st n = Some ord \<longrightarrow>
             findOne_orderCode (fst (api_reset_activation e secret c st)) n
               = Some (ord\<lparr>activation := None\<rparr>))
       \<and> (\<forall>m. m \<noteq> n \<longrightarrow>
             findOne_orderCode (fst (api_reset_activation e secret c st)) m
               = findOne_orderCode st m)
       \<and> codes (fst (api_reset_activation e secret c st)) = codes st)
   \<and> (\<forall>n ord. distinct (map oid (orders st)) \<and> findOne_orderCode st n = Some ord \<and> n \<noteq> 0
          \<and> status ord = PAID \<and> body_orderCode req = Some n \<longrightarrow>
         (adminAuth e cr \<longrightarrow>
           (\<exists>link. snd (activate now req (fst (admin_reset_route e cr (Some (oid ord)) st))) =
              Json 200 (ActivateBody (oid ord) n
                (if truthy_str (body_deviceId req) then body_deviceId req else None)
                (Some now) link)))
       \<and> (secret = ADMIN_ACTIVATE_SECRET e \<longrightarrow>
           (\<exists>link. snd (activate now req (fst (api_reset_activation e secret (Some n) st))) =
              Json 200 (ActivateBody (oid ord) n
                (if truthy_str (body_deviceId req) then body_deviceId req else None)
                (Some now) link))))"
proof (intro conjI allI impI)
  assume "\<not> adminAuth e cr"
  then show "admin_reset_route e cr p st = (st, Challenge)"
    by (simp add: admin_reset_route_def)
next
  assume "adminAuth e cr \<and> p = None"
  then show "admin_reset_route e cr p st = (st, Unhandled)"
    by (simp add: admin_reset_route_def)
next
  fix i assume a: "adminAuth e cr \<and> p = Some i"
  then have r: "admin_reset_route e cr p st = admin_reset_activation i st"
    by (simp add: admin_reset_route_ok)
  show "snd (admin_reset_route e cr p st) = Redirect (Some ''back'')"
    by (simp add: r admin_reset_activation_def)
  show "codes (fst (admin_reset_route e cr p st)) = codes st"
    by (simp add: r admin_reset_activation_def updateById_order_def)
  { assume "findById_order st i = None"
    then show "fst (admin_reset_route e cr p st) = st"
      by (simp add: r admin_reset_activation_def updateById_order_unknown) }
  { fix ord assume "findById_order st i = Some ord"
    then show "findById_order (fst (admin_reset_route e cr p st)) i =
               Some (ord\<lparr>activation := Some \<lparr>isActivated = False, activatedAt = None,
                                              deviceId = None, ip = None\<rparr>\<rparr>)"
      by (simp add: r admin_reset_activation_def findById_after_update) }
  { fix j assume "j \<noteq> i"
    then show "findById_order (fst (admin_reset_route e cr p st)) j = findById_order st j"
      by (simp add: r admin_reset_activation_def findById_other_update) }
next
  assume "secret \<noteq> ADMIN_ACTIVATE_SECRET e"
  then show "api_reset_activation e secret c st = (st, Json 401 (Error ''unauthorized''))"
    by (simp add: api_reset_activation_def)
next
  assume "secret = ADMIN_ACTIVATE_SECRET e \<and> \<not> truthy_num c"
  then show "api_reset_activation e secret c st = (st, Json 400 (Error ''orderCode required''))"
    by (simp add: api_reset_activation_def)
next
  fix n assume a: "secret = ADMIN_ACTIVATE_SECRET e \<and> c = Some n \<and> n \<noteq> 0"
  then have r: "api_reset_activation e secret c st =
       (updateOne_orderCode n (\<lambda>d. d\<lparr>activation := None\<rparr>) st, Json 200 OkBody)"
    by (simp add: api_reset_ok)
  show "snd (api_reset_activation e secret c st) = Json 200 OkBody" by (simp add: r)
  show "codes (fst (api_reset_activation e secret c st)) = codes st"
    by (simp add: r updateOne_orderCode_def)
  { assume "findOne_orderCode st n = None"
    then show "fst (api_reset_activation e secret c st) = st"
      by (simp add: r updateOne_orderCode_unknown) }
  { fix ord assume "findOne_orderCode st n = Some ord"
    then show "findOne_orderCode (fst (api_reset_activation e secret c st)) n
               = Some (ord\<lparr>activation := None\<rparr>)"
      by (simp add: r findOne_after_updateOne) }
  { fix m assume "m \<noteq> n"
    then show "findOne_orderCode (fst (api_reset_activation e secret c st)) m
               = findOne_orderCode st m"
      by (simp add: r findOne_other_updateOne) }
next
  fix n ord
  assume a: "distinct (map oid (orders st)) \<and> findOne_orderCode st n = Some ord \<and> n \<noteq> 0
          \<and> status ord = PAID \<and> body_orderCode req = Some n"
  { assume g: "adminAuth e cr"
    let ?cleared = "\<lambda>d. d\<lparr>activation := Some \<lparr>isActivated = False, activatedAt = None,
                                            deviceId = None, ip = None\<rparr>\<rparr>"
    have f1: "findOne_orderCode (fst (admin_reset_route e cr (Some (oid ord)) st)) n
                = Some (?cleared ord)"
      using a by (simp add: admin_reset_route_ok [OF g] admin_reset_activation_def
                    findOne_after_updateById)
    have "snd (activate now req (fst (admin_reset_route e cr (Some (oid ord)) st))) =
       Json 200 (ActivateBody (oid (?cleared ord)) n
                   (if truthy_str (body_deviceId req) then body_deviceId req else None) (Some now)
                   (case findById_code (fst (admin_reset_route e cr (Some (oid ord)) st))
                           (code (?cleared ord)) of
                      None \<Rightarrow> None
                    | Some cd \<Rightarrow> if driveLink cd = [] then None else Some (driveLink cd)))"
      by (rule activate_first_response [OF _ _ f1])
         (use a in \<open>simp_all add: activation_isActivated_def\<close>)
    then show "\<exists>link. snd (activate now req (fst (admin_reset_route e cr (Some (oid ord)) st))) =
              Json 200 (ActivateBody (oid ord) n
                (if truthy_str (body_deviceId req) then body_deviceId req else None)
                (Some now) link)"
      by simp }
  { assume s: "secret = ADMIN_ACTIVATE_SECRET e"
    let ?null = "\<lambda>d. d\<lparr>activation := None\<rparr>"
    have f2: "findOne_orderCode (fst (api_reset_activation e secret (Some n) st)) n
                = Some (?null ord)"
      using a s by (simp add: api_reset_ok findOne_after_updateOne)
    have "snd (activate now req (fst (api_reset_activation e secret (Some n) st))) =
       Json 200 (ActivateBody (oid (?null ord)) n
                   (if truthy_str (body_deviceId req) then body_deviceId req else None) (Some now)
                   (case findById_code (fst (api_reset_activation e secret (Some n) st))
                           (code (?null ord)) of
                      None \<Rightarrow> None
                    | Some cd \<Rightarrow> if driveLink cd = [] then None else Some (driveLink cd)))"
      by (rule activate_first_response [OF _ _ f2])
         (use a in \<open>simp_all add: activation_isActivated_def\<close>)
    then show "\<exists>link. snd (activate now req (fst (api_reset_activation e secret (Some n) st))) =
              Json 200 (ActivateBody (oid ord) n
                (if truthy_str (body_deviceId req) then body_deviceId req else None)
                (Some now) link)"
      by simp }
qed

theorem reset_clears_activation_witness:
  "findById_order (fst (admin_reset_route example_env (Some (''admin'', ''admin123'')) (Some 1)
        activated_db)) 1 =
     Some (activated_order\<lparr>activation := Some \<lparr>isActivated = False, activatedAt = None,
                                                 deviceId = None, ip = None\<rparr>\<rparr>)
   \<and> admin_reset_route example_env None (Some 1) activated_db = (activated_db, Challenge)
   \<and> admin_reset_route example_env (Some (''admin'', ''admin123'')) None activated_db
       = (activated_db, Unhandled)
   \<and> findOne_orderCode
         (fst (api_reset_activation example_env (Some ''s'') (Some 42) activated_db)) 42
       = Some (activated_order\<lparr>activation := None\<rparr>)
   \<and> (\<exists>link. snd (activate 9 (example_request (Some 42) (Some ''dev-999''))
                     (fst (admin_reset_route example_env (Some (''admin'', ''admin123''))
                             (Some 1) activated_db))) =
         Json 200 (ActivateBody 1 42 (Some ''dev-999'') (Some 9) link))
   \<and> (\<exists>link. snd (activate 9 (example_request (Some 42) (Some ''dev-999''))
                     (fst (api_reset_activation example_env (Some ''s'') (Some 42) activated_db))) =
         Json 200 (ActivateBody 1 42 (Some ''dev-999'') (Some 9) link))"
proof -
  let ?r = "example_request (Some 42) (Some ''dev-999'')"
  let ?cr = "Some (''admin'', ''admin123'')"
  note T = reset_clears_activation [where e = example_env and st = activated_db and secret = "Some ''s''"
      and c = "Some 42" and req = ?r and now = 9]
  have au: "adminAuth example_env ?cr"
    by (simp add: adminAuth_def or_else_def truthy_str_def example_env_def)
  have nau: "\<not> adminAuth example_env None" by (simp add: adminAuth_def)
  have au1: "adminAuth example_env ?cr \<and> Some (1::nat) = Some 1" using au by simp
  have au0: "adminAuth example_env ?cr \<and> (None :: objectId option) = None" using au by simp
  have f: "findById_order activated_db 1 = Some activated_order"
    by (simp add: findById_order_def example_defs)
  have g: "findOne_orderCode activated_db 42 = Some activated_order"
    by (simp add: findOne_orderCode_def example_defs)
  have k: "Some ''s'' = ADMIN_ACTIVATE_SECRET example_env" by (simp add: example_env_def)
  have k': "Some ''s'' = ADMIN_ACTIVATE_SECRET example_env \<and> Some (42::int) = Some 42 \<and> (42::int) \<noteq> 0"
    by (simp add: example_env_def)
  have h: "distinct (map oid (orders activated_db)) \<and> findOne_orderCode activated_db 42 = Some activated_order
      \<and> (42::int) \<noteq> 0 \<and> status activated_order = PAID \<and> body_orderCode ?r = Some 42"
    by (simp add: g) (simp add: example_defs)
  have o: "oid activated_order = 1" by (simp add: example_defs)
  have t: "body_deviceId ?r = Some ''dev-999''" by (simp add: example_request_def)
  note a = T [where cr = ?cr and p = "Some 1", THEN conjunct2, THEN conjunct2, THEN conjunct1,
      THEN spec, THEN mp, OF au1, THEN conjunct2, THEN conjunct2, THEN conjunct1,
      THEN spec, THEN mp, OF f]
  note ch = T [where cr = None and p = "Some 1", THEN conjunct1, THEN mp, OF nau]
  note un = T [where cr = ?cr and p = None, THEN conjunct2, THEN conjunct1, THEN mp, OF au0]
  note b = T [where cr = ?cr and p = "Some 1", THEN conjunct2, THEN conjunct2, THEN conjunct2,
      THEN conjunct2, THEN conjunct2, THEN conjunct1, THEN spec, THEN mp, OF k',
      THEN conjunct2, THEN conjunct2, THEN conjunct1, THEN spec, THEN mp, OF g]
  note c = T [where cr = ?cr and p = "Some 1", THEN conjunct2, THEN conjunct2, THEN conjunct2,
      THEN conjunct2, THEN conjunct2, THEN conjunct2, THEN spec, THEN spec, THEN mp, OF h]
  note c1 = c [THEN conjunct1, THEN mp, OF au]
  note c2 = c [THEN conjunct2, THEN mp, OF k]
  from a ch un b c1 c2 show ?thesis by (simp add: o t truthy_str_def)
qed

theorem reset_api_route_counterexample:
  "map activation (orders (fst (api_reset_activation example_env (Some ''s'') (Some 42)
        activated_db))) = [None]
   \<and> map activation (orders (fst (admin_reset_activation 1 activated_db)))
       = [Some \<lparr>isActivated = False, activatedAt = None, deviceId = None, ip = None\<rparr>]
   \<and> api_reset_activation example_env (Some ''s'') None activated_db
       = (activated_db, Json 400 (Error ''orderCode required''))"
  by (simp add: api_reset_activation_def admin_reset_activation_def updateOne_orderCode_def
        updateById_order_def truthy_num_def example_env_def example_defs)

section \<open>paidAt\<close>

lemma paidAt_updateById:
  "(\<And>d. paidAt (f d) = paidAt d) \<Longrightarrow>
     map paidAt (orders (updateById_order i f st)) = map paidAt (orders st)"
  by (simp add: updateById_order_def map_update_first_key)

lemma paidAt_updateOne:
  "(\<And>d. paidAt (f d) = paidAt d) \<Longrightarrow>
     map paidAt (orders (updateOne_orderCode c f st)) = map paidAt (orders st)"
  by (simp add: updateOne_orderCode_def map_update_first_key)

lemma validate_db: "fst (validate req st) = st"
  by (simp add: validate_def split: option.split)

lemma paidAt_activate:
  "map paidAt (orders (fst (activate now req st))) = map paidAt (orders st)"
  by (simp add: activate_def activate_load_def activate_finish_def Let_def paidAt_updateById
           split: option.split)

lemma paidAt_api_reset:
  "map paidAt (orders (fst (api_reset_activation e secret c st))) = map paidAt (orders st)"
  by (simp add: api_reset_activation_def paidAt_updateOne)

lemma paidAt_admin:
  "(\<And>t j. a \<noteq> MarkPaid t j) \<Longrightarrow>
     map paidAt (orders (fst (admin_handle a st))) = map paidAt (orders st)"
proof (cases a)
  case (MarkPaid t j)
  moreover assume "\<And>t j. a \<noteq> MarkPaid t j"
  ultimately show ?thesis by blast
qed (simp_all add: admin_codes_create_def admin_codes_update_def admin_codes_delete_def
        admin_reset_activation_def paidAt_updateById)

lemma paidAt_order_post:
  "map paidAt (orders (fst (order_post H e payos now i f st))) = map paidAt (orders st)
   \<or> map paidAt (orders (fst (order_post H e payos now i f st))) = map paidAt (orders st) @ [None]"
  by (simp add: order_post_def Let_def paidAt_updateById split: option.split)

lemma paidAt_handle:
  assumes "\<And>t j q. r \<noteq> GetOrderSuccess t j q" "\<And>cr t j. r \<noteq> Admin cr (MarkPaid t j)"
  shows "map paidAt (orders (fst (handle H e r st))) = map paidAt (orders st)
   \<or> map paidAt (orders (fst (handle H e r st))) = map paidAt (orders st) @ [None]"
proof (cases r)
  case (PostOrder payos now i f)
  then show ?thesis using paidAt_order_post [of H e payos now i f st] by simp
next
  case (GetOrderSuccess t j q)
  with assms(1) show ?thesis by blast
next
  case (GetOrderCancel i)
  then show ?thesis by (simp add: order_cancel_def split: option.split)
next
  case (GetApiOrder i)
  then show ?thesis by (simp add: api_order_def split: option.split)
next
  case (PostActivate now req)
  then show ?thesis by (simp add: paidAt_activate)
next
  case (PostValidate req)
  then show ?thesis by (simp add: validate_db)
next
  case (PostApiReset secret c)
  then show ?thesis by (simp add: paidAt_api_reset)
next
  case (Admin cr a)
  with assms(2) have "\<And>t j. a \<noteq> MarkPaid t j" by simp
  then show ?thesis using Admin by (simp add: paidAt_admin)
qed

text \<open>
  C7, as the code has it. paidAt is stamped with the current time by every verified
  return-trip request and by every admin mark-paid action, whatever the order's status and
  stored paidAt: on an order that is already PAID the new time replaces the stored one. A
  return trip that does not verify, or for an unknown order, changes nothing, and no other
  request changes a stored paidAt (order creation adds an order without paidAt).
\<close>

theorem paidAt_stamped_on_every_confirmation:
  "(\<forall>ord. findById_order st i = Some ord \<longrightarrow>
       findById_order (fst (admin_mark_paid now i st)) i
         = Some (ord\<lparr>status := PAID, paidAt := Some now\<rparr>))
   \<and> (\<forall>ord key. findById_order st i = Some ord \<and> PAYOS_CHECKSUM_KEY e = Some key
          \<and> q_status q = Some ''PAID''
          \<and> q_sig q = Some (H key (string_of_int (orderCode ord) @ '':PAID'')) \<longrightarrow>
       findById_order (fst (order_success H e now i q st)) i
         = Some (ord\<lparr>status := PAID, paidAt := Some now\<rparr>))
   \<and> (\<forall>ord. findById_order st i = Some ord
          \<and> \<not> (\<exists>key. PAYOS_CHECKSUM_KEY e = Some key \<and> q_status q = Some ''PAID''
                  \<and> q_sig q = Some (H key (string_of_int (orderCode ord) @ '':PAID''))) \<longrightarrow>
       fst (order_success H e now i q st) = st)
   \<and> (findById_order st i = None \<longrightarrow> fst (order_success H e now i q st) = st)
   \<and> (\<forall>r. (\<forall>t j q'. r \<noteq> GetOrderSuccess t j q') \<and> (\<forall>cr t j. r \<noteq> Admin cr (MarkPaid t j)) \<longrightarrow>
         map paidAt (orders (fst (handle H e r st))) = map paidAt (orders st)
       \<or> map paidAt (orders (fst (handle H e r st))) = map paidAt (orders st) @ [None])"
proof (intro conjI allI impI)
  fix ord assume "findById_order st i = Some ord"
  then show "findById_order (fst (admin_mark_paid now i st)) i
         = Some (ord\<lparr>status := PAID, paidAt := Some now\<rparr>)"
    by (simp add: admin_mark_paid_def findById_after_update)
next
  fix ord key
  assume a: "findById_order st i = Some ord \<and> PAYOS_CHECKSUM_KEY e = Some key
          \<and> q_status q = Some ''PAID''
          \<and> q_sig q = Some (H key (string_of_int (orderCode ord) @ '':PAID''))"
  then have "order_success H e now i q st =
           (updateById_order i (\<lambda>d. d\<lparr>status := PAID, paidAt := Some now\<rparr>) st,
            RenderOrderStatus (ord\<lparr>status := PAID, paidAt := Some now\<rparr>,
                               findById_code st (code ord)) True)"
    by (intro order_success_verified [where key = key]) simp_all
  with a show "findById_order (fst (order_success H e now i q st)) i
         = Some (ord\<lparr>status := PAID, paidAt := Some now\<rparr>)"
    by (simp add: findById_after_update)
next
  fix ord
  assume "findById_order st i = Some ord
          \<and> \<not> (\<exists>key. PAYOS_CHECKSUM_KEY e = Some key \<and> q_status q = Some ''PAID''
                  \<and> q_sig q = Some (H key (string_of_int (orderCode ord) @ '':PAID'')))"
  then show "fst (order_success H e now i q st) = st"
    by (simp add: order_success_unverified [where ord = ord])
next
  assume "findById_order st i = None"
  then show "fst (order_success H e now i q st) = st"
    by (simp add: order_success_def)
next
  fix r
  assume "(\<forall>t j q'. r \<noteq> GetOrderSuccess t j q') \<and> (\<forall>cr t j. r \<noteq> Admin cr (MarkPaid t j))"
  then show "map paidAt (orders (fst (handle H e r st))) = map paidAt (orders st)
       \<or> map paidAt (orders (fst (handle H e r st))) = map paidAt (orders st) @ [None]"
    by (intro paidAt_handle) blast+
qed

theorem paidAt_stamped_on_every_confirmation_witness:
  "findById_order (fst (admin_mark_paid 9 1 paid_db)) 1
     = Some (paid_order\<lparr>status := PAID, paidAt := Some 9\<rparr>)
   \<and> findById_order (fst (order_success example_hmac example_env 9 1
                            (example_query ''k/42:PAID'') paid_db)) 1
       = Some (paid_order\<lparr>status := PAID, paidAt := Some 9\<rparr>)"
proof -
  note T = paidAt_stamped_on_every_confirmation [where st = paid_db and i = 1 and now = 9
      and e = example_env and H = example_hmac and q = "example_query ''k/42:PAID''"]
  have f: "findById_order paid_db 1 = Some paid_order"
    by (simp add: findById_order_def example_defs)
  have g: "findById_order paid_db 1 = Some paid_order \<and> PAYOS_CHECKSUM_KEY example_env = Some ''k''
      \<and> q_status (example_query ''k/42:PAID'') = Some ''PAID''
      \<and> q_sig (example_query ''k/42:PAID'')
          = Some (example_hmac ''k'' (string_of_int (orderCode paid_order) @ '':PAID''))"
  proof -
    have "PAYOS_CHECKSUM_KEY example_env = Some ''k''
      \<and> q_status (example_query ''k/42:PAID'') = Some ''PAID''
      \<and> q_sig (example_query ''k/42:PAID'')
          = Some (example_hmac ''k'' (string_of_int (orderCode paid_order) @ '':PAID''))"
      by (simp add: example_env_def example_query_def example_hmac_def
          string_of_int_42 example_defs)
    with f show ?thesis by blast
  qed
  note a = T [THEN conjunct1, THEN spec, THEN mp, OF f]
  note b = T [THEN conjunct2, THEN conjunct1, THEN spec, THEN spec, THEN mp, OF g]
  from a b show ?thesis by simp
qed

theorem paidAt_overwritten_counterexample:
  "map status (orders paid_db) = [PAID] \<and> map paidAt (orders paid_db) = [Some 5]
   \<and> map paidAt (orders (fst (order_success example_hmac example_env 9 1
                                 (example_query ''k/42:PAID'') paid_db))) = [Some 9]
   \<and> map paidAt (orders (fst (admin_mark_paid 9 1 paid_db))) = [Some 9]"
  by (simp add: order_success_def admin_mark_paid_def updateById_order_def findById_order_def
        sig_message_def template_str_def string_of_int_42 example_hmac_def example_env_def
        example_query_def example_defs)

section \<open>Activated implies paid\<close>

lemma update_first_all:
  "\<forall>x \<in> set xs. Q x \<Longrightarrow> (\<And>x. x \<in> set xs \<Longrightarrow> P x \<Longrightarrow> Q (f x)) \<Longrightarrow>
     \<forall>x \<in> set (update_first P f xs). Q x"
  by (induction xs) auto

lemma distinct_key_eq:
  "distinct (map k xs) \<Longrightarrow> x \<in> set xs \<Longrightarrow> y \<in> set xs \<Longrightarrow> k x = k y \<Longrightarrow> x = y"
  by (auto simp: distinct_map dest: inj_onD)

lemma ledger_inv_update:
  assumes "ledger_inv st" "\<And>d. oid (f d) = oid d"
    and "\<And>d. d \<in> set (orders st) \<Longrightarrow> P d \<Longrightarrow> activation_isActivated (f d) \<Longrightarrow> status (f d) = PAID"
  shows "ledger_inv (st\<lparr>orders := update_first P f (orders st)\<rparr>)"
proof -
  have "\<forall>x \<in> set (update_first P f (orders st)). activation_isActivated x \<longrightarrow> status x = PAID"
    by (rule update_first_all) (use assms in \<open>auto simp: ledger_inv_def\<close>)
  moreover have "map oid (update_first P f (orders st)) = map oid (orders st)"
    by (rule map_update_first_key) (rule assms(2))
  ultimately show ?thesis using assms(1) by (simp add: ledger_inv_def)
qed

lemma ledger_inv_codes: "ledger_inv st \<Longrightarrow> ledger_inv (st\<lparr>codes := cs\<rparr>)"
  by (simp add: ledger_inv_def)

lemma ledger_inv_activate: "ledger_inv st \<Longrightarrow> ledger_inv (fst (activate now req st))"
proof -
  assume inv: "ledger_inv st"
  show ?thesis
  proof (cases "activate_load st req")
    case (Inl r)
    with inv show ?thesis by (simp add: activate_def)
  next
    case (Inr p)
    then obtain c where f: "findOne_orderCode st c = Some (fst p)"
      by (auto simp: activate_load_def populate_def split: if_splits option.splits)
    then have m: "fst p \<in> set (orders st)"
      by (auto simp: findOne_orderCode_def dest: find_Some_mem)
    have "ledger_inv (updateById_order (oid (fst p)) (\<lambda>d. d\<lparr>activation := Some a\<rparr>) st)"
      if "status (fst p) = PAID" for a
      unfolding updateById_order_def
    proof (rule ledger_inv_update [OF inv])
      fix d assume "d \<in> set (orders st)" "oid d = oid (fst p)"
      with inv m have "d = fst p" by (auto simp: ledger_inv_def dest: distinct_key_eq)
      with that show "status (d\<lparr>activation := Some a\<rparr>) = PAID" by simp
    qed simp
    with inv Inr show ?thesis
      by (simp add: activate_def activate_finish_def Let_def)
  qed
qed

lemma ledger_inv_order_success: "ledger_inv st \<Longrightarrow> ledger_inv (fst (order_success H e now i q st))"
  by (auto simp: order_success_def Let_def updateById_order_def
           intro!: ledger_inv_update split: option.split)

lemma ledger_inv_order_post:
  assumes "ledger_inv st"
  shows "ledger_inv (fst (order_post H e payos now i f st))"
proof -
  have new: "ledger_inv (st\<lparr>orders := orders st @ [ord]\<rparr>)"
    if "\<not> (\<exists>d \<in> set (orders st). oid d = oid ord \<or> orderCode d = now)"
      "activation ord = Some default_activation" for ord
    using assms that
    by (auto simp: ledger_inv_def activation_isActivated_def default_activation_def)
  have upd: "ledger_inv (updateById_order i (\<lambda>d. d\<lparr>paymentLinkId := l, checkoutUrl := u\<rparr>) st')"
    if "ledger_inv st'" for st' l u
    unfolding updateById_order_def
  proof (rule ledger_inv_update [OF that])
    fix d
    assume "d \<in> set (orders st')"
      "activation_isActivated (d\<lparr>paymentLinkId := l, checkoutUrl := u\<rparr>)"
    with that show "status (d\<lparr>paymentLinkId := l, checkoutUrl := u\<rparr>) = PAID"
      by (auto simp: ledger_inv_def activation_isActivated_def)
  qed simp
  show ?thesis
    using assms
    by (auto simp: order_post_def Let_def split: option.split intro!: new upd)
qed

lemma ledger_inv_admin: "ledger_inv st \<Longrightarrow> ledger_inv (fst (admin_handle a st))"
proof (cases a)
  case (MarkPaid now i)
  moreover assume "ledger_inv st"
  ultimately show ?thesis
    by (auto simp: admin_mark_paid_def updateById_order_def intro!: ledger_inv_update)
next
  case (ResetActivation i)
  moreover assume "ledger_inv st"
  ultimately show ?thesis
    by (auto simp: admin_reset_activation_def updateById_order_def activation_isActivated_def
             intro!: ledger_inv_update)
qed (auto simp: admin_codes_create_def admin_codes_update_def admin_codes_delete_def
           intro: ledger_inv_codes)

lemma ledger_inv_api_reset:
  "ledger_inv st \<Longrightarrow> ledger_inv (fst (api_reset_activation e secret c st))"
  by (auto simp: api_reset_activation_def updateOne_orderCode_def activation_isActivated_def
           intro!: ledger_inv_update)

lemma ledger_inv_handle: "ledger_inv st \<Longrightarrow> ledger_inv (fst (handle H e r st))"
  by (cases r)
     (simp_all add: ledger_inv_order_post ledger_inv_order_success ledger_inv_activate
        ledger_inv_admin ledger_inv_api_reset validate_db order_cancel_def api_order_def
        split: option.split)

lemma ledger_inv_run: "ledger_inv st \<Longrightarrow> ledger_inv (run H e rs st)"
  by (induction rs arbitrary: st) (simp_all add: ledger_inv_handle)

lemma ledger_inv_empty: "ledger_inv empty_db"
  by (simp add: ledger_inv_def empty_db_def)

text \<open>
  C8. In every database reached from the empty one by a sequence of requests (order
  creation, return trip, cancel page, status poll, Activate, Validate, both resets, and the
  admin's mark-paid and catalog actions), every order with activation.isActivated = true
  has status PAID.
\<close>

theorem activated_implies_paid:
  "\<forall>ord \<in> set (orders (run H e rs empty_db)). activation_isActivated ord \<longrightarrow> status ord = PAID"
  using ledger_inv_run [OF ledger_inv_empty, of H e rs] by (simp add: ledger_inv_def)

lemma example_session_run:
  "orders (run example_hmac example_env example_session empty_db) =
     [\<lparr>oid = 1, buyerName = Some ''An'', buyerEmail = Some ''an@example.org'', code = 7,
       amount = 100000, orderCode = 42, status = PAID, paymentLinkId = Some ''pl-1'',
       checkoutUrl = Some ''https://pay.example/pl-1'', reference = None, paidAt = Some 50,
       activation = Some \<lparr>isActivated = True, activatedAt = Some 60,
                           deviceId = Some ''dev-123'', ip = Some ''10.0.0.1''\<rparr>\<rparr>]"
  by (simp add: example_session_def empty_db_def adminAuth_def or_else_def truthy_str_def
        truthy_num_def example_env_def admin_codes_create_def number_or_0_def
        order_post_def findById_code_def Let_def updateById_order_def default_activation_def
        order_success_def findById_order_def sig_message_def template_str_def string_of_int_42
        example_hmac_def example_query_def populate_def
        activate_def activate_load_def activate_finish_def findOne_orderCode_def
        activation_isActivated_def example_request_def request_ip_def header_string_def)

theorem activated_implies_paid_witness:
  "\<exists>ord \<in> set (orders (run example_hmac example_env example_session empty_db)).
      activation_isActivated ord \<and> status ord = PAID"
proof -
  let ?o = "hd (orders (run example_hmac example_env example_session empty_db))"
  have m: "?o \<in> set (orders (run example_hmac example_env example_session empty_db))"
    by (simp add: example_session_run)
  have a: "activation_isActivated ?o"
    by (simp add: example_session_run activation_isActivated_def)
  from activated_implies_paid [of example_hmac example_env example_session, rule_format, OF m a]
  have "status ?o = PAID" .
  with m a show ?thesis by blast
qed

section \<open>Two calls of Activate\<close>

lemma step_waiting:
  "body_orderCode req = Some c \<Longrightarrow> c \<noteq> 0 \<Longrightarrow> findOne_orderCode st c = Some ord \<Longrightarrow>
     task_step now (Waiting req) st = (st, Loaded req (ord, findById_code st (code ord)))"
  by (simp add: activate_load_def truthy_num_def populate_def)

lemma step_loaded_first:
  "status ord = PAID \<Longrightarrow> \<not> activation_isActivated ord \<Longrightarrow>
     task_step now (Loaded req (ord, cd)) st =
       (updateById_order (oid ord) (\<lambda>d. d\<lparr>activation := Some (activated_with now req)\<rparr>) st,
        Done (Json 200 (ActivateBody (oid ord) (orderCode ord) (deviceId (activated_with now req))
                (Some now)
                (case cd of None \<Rightarrow> None
                 | Some c \<Rightarrow> if driveLink c = [] then None else Some (driveLink c)))))"
  by (simp add: finish_first)

lemma step_loaded_already:
  "status ord = PAID \<Longrightarrow> activation ord = Some a \<Longrightarrow> isActivated a \<Longrightarrow>
     task_step now (Loaded req (ord, cd)) st =
       (st, Done (Json 409 (AlreadyActivatedBody ''Order already activated''
                              (activatedAt a) (deviceId a))))"
  by (simp add: finish_already)

lemma findById_code_updateById:
  "findById_code (updateById_order i f st) j = findById_code st j"
  by (simp add: findById_code_def updateById_order_def)

lemma updateById_twice:
  "(\<And>d. oid (f d) = oid d) \<Longrightarrow>
     updateById_order i g (updateById_order i f st) = updateById_order i (\<lambda>d. g (f d)) st"
proof -
  assume k: "\<And>d. oid (f d) = oid d"
  have "update_first (\<lambda>d. oid d = i) g (update_first (\<lambda>d. oid d = i) f xs)
          = update_first (\<lambda>d. oid d = i) (\<lambda>d. g (f d)) xs" for xs
    by (induction xs) (simp_all add: k)
  then show ?thesis by (simp add: updateById_order_def)
qed

lemma two_calls_sequential:
  assumes "distinct (map oid (orders st))" "findOne_orderCode st c = Some ord" "c \<noteq> 0"
    "status ord = PAID" "\<not> activation_isActivated ord"
    "body_orderCode r1 = Some c" "body_orderCode r2 = Some c"
  shows "run_two [(False, t1), (False, t2), (True, t3), (True, t4)] (Waiting r1, Waiting r2) st =
     (updateById_order (oid ord) (\<lambda>d. d\<lparr>activation := Some (activated_with t2 r1)\<rparr>) st,
      Done (Json 200 (ActivateBody (oid ord) c (deviceId (activated_with t2 r1)) (Some t2)
              (case findById_code st (code ord) of None \<Rightarrow> None
               | Some cd \<Rightarrow> if driveLink cd = [] then None else Some (driveLink cd)))),
      Done (Json 409 (AlreadyActivatedBody ''Order already activated''
              (Some t2) (deviceId (activated_with t2 r1)))))"
proof -
  let ?st1 = "updateById_order (oid ord) (\<lambda>d. d\<lparr>activation := Some (activated_with t2 r1)\<rparr>) st"
  let ?ord1 = "ord\<lparr>activation := Some (activated_with t2 r1)\<rparr>"
  have oc: "orderCode ord = c" using assms(2) by (rule findOne_orderCode_field)
  have a: "task_step t1 (Waiting r1) st = (st, Loaded r1 (ord, findById_code st (code ord)))"
    by (rule step_waiting [OF assms(6,3,2)])
  have b: "task_step t2 (Loaded r1 (ord, findById_code st (code ord))) st =
      (?st1, Done (Json 200 (ActivateBody (oid ord) c (deviceId (activated_with t2 r1)) (Some t2)
              (case findById_code st (code ord) of None \<Rightarrow> None
               | Some cd \<Rightarrow> if driveLink cd = [] then None else Some (driveLink cd)))))"
    by (simp only: step_loaded_first [OF assms(4,5)] oc)
  have f1: "findOne_orderCode ?st1 c = Some ?ord1"
    by (rule findOne_after_updateById [OF assms(1,2)]) simp
  have c: "task_step t3 (Waiting r2) ?st1 = (?st1, Loaded r2 (?ord1, findById_code ?st1 (code ?ord1)))"
    by (rule step_waiting [OF assms(7,3) f1])
  have d: "task_step t4 (Loaded r2 (?ord1, findById_code ?st1 (code ?ord1))) ?st1 =
      (?st1, Done (Json 409 (AlreadyActivatedBody ''Order already activated''
              (activatedAt (activated_with t2 r1)) (deviceId (activated_with t2 r1)))))"
    by (rule step_loaded_already) (simp_all add: assms(4) activated_with_def)
  have e: "activatedAt (activated_with t2 r1) = Some t2" by (simp add: activated_with_def)
  show ?thesis by (simp only: run_two.simps a b c d e if_True if_False prod.case)
qed

lemma two_calls_overlapping:
  assumes "distinct (map oid (orders st))" "findOne_orderCode st c = Some ord" "c \<noteq> 0"
    "status ord = PAID" "\<not> activation_isActivated ord"
    "body_orderCode r1 = Some c" "body_orderCode r2 = Some c"
  shows "run_two [(False, t1), (True, t2), (False, t3), (True, t4)] (Waiting r1, Waiting r2) st =
     (updateById_order (oid ord) (\<lambda>d. d\<lparr>activation := Some (activated_with t4 r2)\<rparr>) st,
      Done (Json 200 (ActivateBody (oid ord) c (deviceId (activated_with t3 r1)) (Some t3)
              (case findById_code st (code ord) of None \<Rightarrow> None
               | Some cd \<Rightarrow> if driveLink cd = [] then None else Some (driveLink cd)))),
      Done (Json 200 (ActivateBody (oid ord) c (deviceId (activated_with t4 r2)) (Some t4)
              (case findById_code st (code ord) of None \<Rightarrow> None
               | Some cd \<Rightarrow> if driveLink cd = [] then None else Some (driveLink cd)))))"
proof -
  let ?st1 = "updateById_order (oid ord) (\<lambda>d. d\<lparr>activation := Some (activated_with t3 r1)\<rparr>) st"
  let ?st2 = "updateById_order (oid ord) (\<lambda>d. d\<lparr>activation := Some (activated_with t4 r2)\<rparr>) st"
  let ?p = "(ord, findById_code st (code ord))"
  have oc: "orderCode ord = c" using assms(2) by (rule findOne_orderCode_field)
  have a: "task_step t1 (Waiting r1) st = (st, Loaded r1 ?p)"
    by (rule step_waiting [OF assms(6,3,2)])
  have b: "task_step t2 (Waiting r2) st = (st, Loaded r2 ?p)"
    by (rule step_waiting [OF assms(7,3,2)])
  have c: "task_step t3 (Loaded r1 ?p) st =
      (?st1, Done (Json 200 (ActivateBody (oid ord) c (deviceId (activated_with t3 r1)) (Some t3)
              (case findById_code st (code ord) of None \<Rightarrow> None
               | Some cd \<Rightarrow> if driveLink cd = [] then None else Some (driveLink cd)))))"
    by (simp only: step_loaded_first [OF assms(4,5)] oc)
  have tw: "updateById_order (oid ord) (\<lambda>d. d\<lparr>activation := Some (activated_with t4 r2)\<rparr>) ?st1 = ?st2"
    by (simp add: updateById_twice)
  have d: "task_step t4 (Loaded r2 ?p) ?st1 =
      (?st2, Done (Json 200 (ActivateBody (oid ord) c (deviceId (activated_with t4 r2)) (Some t4)
              (case findById_code st (code ord) of None \<Rightarrow> None
               | Some cd \<Rightarrow> if driveLink cd = [] then None else Some (driveLink cd)))))"
    by (simp only: step_loaded_first [OF assms(4,5)] oc tw)
  show ?thesis by (simp only: run_two.simps a b c d if_True if_False prod.case)
qed

text \<open>Under the schedule that lets the first call finish before the second starts, the
  two tasks are two successive calls of the handler.\<close>

lemma run_two_sequential_is_activate:
  "run_two [(False, t1), (False, t2), (True, t3), (True, t4)] (Waiting r1, Waiting r2) st
     = (fst (activate t4 r2 (fst (activate t2 r1 st))),
        Done (snd (activate t2 r1 st)),
        Done (snd (activate t4 r2 (fst (activate t2 r1 st)))))"
  by (simp add: activate_def split: sum.split prod.split)

text \<open>
  C5, as the code has it. The handler reads the order with one store operation and saves it
  with another, with no conditional update between them. For two Activate calls on the same
  never-activated PAID order: when the second call starts after the first has finished, the
  first answers 200 and the second 409 AlreadyActivated with the first call's activatedAt
  and deviceId, and the database is as the first call left it; when both calls read the
  order before either saves, both answer 200 with the driveLink, and the later save
  replaces the earlier activation.
\<close>

theorem activate_two_calls:
  "distinct (map oid (orders st)) \<and> findOne_orderCode st c = Some ord \<and> c \<noteq> 0
     \<and> status ord = PAID \<and> \<not> activation_isActivated ord
     \<and> body_orderCode r1 = Some c \<and> body_orderCode r2 = Some c \<longrightarrow>
   run_two [(False, t1), (False, t2), (True, t3), (True, t4)] (Waiting r1, Waiting r2) st =
     (updateById_order (oid ord) (\<lambda>d. d\<lparr>activation := Some (activated_with t2 r1)\<rparr>) st,
      Done (Json 200 (ActivateBody (oid ord) c (deviceId (activated_with t2 r1)) (Some t2)
              (case findById_code st (code ord) of None \<Rightarrow> None
               | Some cd \<Rightarrow> if driveLink cd = [] then None else Some (driveLink cd)))),
      Done (Json 409 (AlreadyActivatedBody ''Order already activated''
              (Some t2) (deviceId (activated_with t2 r1)))))
   \<and> run_two [(False, t1), (True, t2), (False, t3), (True, t4)] (Waiting r1, Waiting r2) st =
     (updateById_order (oid ord) (\<lambda>d. d\<lparr>activation := Some (activated_with t4 r2)\<rparr>) st,
      Done (Json 200 (ActivateBody (oid ord) c (deviceId (activated_with t3 r1)) (Some t3)
              (case findById_code st (code ord) of None \<Rightarrow> None
               | Some cd \<Rightarrow> if driveLink cd = [] then None else Some (driveLink cd)))),
      Done (Json 200 (ActivateBody (oid ord) c (deviceId (activated_with t4 r2)) (Some t4)
              (case findById_code st (code ord) of None \<Rightarrow> None
               | Some cd \<Rightarrow> if driveLink cd = [] then None else Some (driveLink cd)))))"
proof (intro impI conjI)
  assume a: "distinct (map oid (orders st)) \<and> findOne_orderCode st c = Some ord \<and> c \<noteq> 0
     \<and> status ord = PAID \<and> \<not> activation_isActivated ord
     \<and> body_orderCode r1 = Some c \<and> body_orderCode r2 = Some c"
  then show "run_two [(False, t1), (False, t2), (True, t3), (True, t4)] (Waiting r1, Waiting r2) st =
     (updateById_order (oid ord) (\<lambda>d. d\<lparr>activation := Some (activated_with t2 r1)\<rparr>) st,
      Done (Json 200 (ActivateBody (oid ord) c (deviceId (activated_with t2 r1)) (Some t2)
              (case findById_code st (code ord) of None \<Rightarrow> None
               | Some cd \<Rightarrow> if driveLink cd = [] then None else Some (driveLink cd)))),
      Done (Json 409 (AlreadyActivatedBody ''Order already activated''
              (Some t2) (deviceId (activated_with t2 r1)))))"
    by (intro two_calls_sequential) blast+
  from a show "run_two [(False, t1), (True, t2), (False, t3), (True, t4)] (Waiting r1, Waiting r2) st =
     (updateById_order (oid ord) (\<lambda>d. d\<lparr>activation := Some (activated_with t4 r2)\<rparr>) st,
      Done (Json 200 (ActivateBody (oid ord) c (deviceId (activated_with t3 r1)) (Some t3)
              (case findById_code st (code ord) of None \<Rightarrow> None
               | Some cd \<Rightarrow> if driveLink cd = [] then None else Some (driveLink cd)))),
      Done (Json 200 (ActivateBody (oid ord) c (deviceId (activated_with t4 r2)) (Some t4)
              (case findById_code st (code ord) of None \<Rightarrow> None
               | Some cd \<Rightarrow> if driveLink cd = [] then None else Some (driveLink cd)))))"
    by (intro two_calls_overlapping) blast+
qed

theorem activate_two_calls_witness:
  "run_two [(False, 1), (False, 2), (True, 3), (True, 4)]
       (Waiting (example_request (Some 42) (Some ''dev-A'')),
        Waiting (example_request (Some 42) (Some ''dev-B''))) paid_db =
     (\<lparr>orders = [paid_order\<lparr>activation := Some \<lparr>isActivated = True, activatedAt = Some 2,
                       deviceId = Some ''dev-A'', ip = Some ''10.0.0.1''\<rparr>\<rparr>],
        codes = [example_code]\<rparr>,
      Done (Json 200 (ActivateBody 1 42 (Some ''dev-A'') (Some 2) (Some ''https://drive.example/x''))),
      Done (Json 409 (AlreadyActivatedBody ''Order already activated'' (Some 2) (Some ''dev-A''))))"
proof -
  let ?a = "example_request (Some 42) (Some ''dev-A'')"
  let ?b = "example_request (Some 42) (Some ''dev-B'')"
  have f: "findOne_orderCode paid_db 42 = Some paid_order"
    by (simp add: findOne_orderCode_def example_defs)
  have p: "status paid_order = PAID \<and> \<not> activation_isActivated paid_order"
    by (simp add: activation_isActivated_def example_defs)
  have d: "distinct (map oid (orders paid_db))" by (simp add: example_defs)
  have b: "body_orderCode ?a = Some 42 \<and> body_orderCode ?b = Some 42"
    by (simp add: example_request_def)
  have h: "distinct (map oid (orders paid_db)) \<and> findOne_orderCode paid_db 42 = Some paid_order
     \<and> (42::int) \<noteq> 0 \<and> status paid_order = PAID \<and> \<not> activation_isActivated paid_order
     \<and> body_orderCode ?a = Some 42 \<and> body_orderCode ?b = Some 42"
    using f p d b by simp
  have w: "activated_with 2 ?a = \<lparr>isActivated = True, activatedAt = Some 2,
                       deviceId = Some ''dev-A'', ip = Some ''10.0.0.1''\<rparr>"
    by (simp add: activated_with_def request_ip_def header_string_def or_else_def truthy_str_def
          example_request_def)
  have l: "findById_code paid_db (code paid_order) = Some example_code"
    by (simp add: findById_code_def example_defs)
  have o: "oid paid_order = 1 \<and> driveLink example_code = ''https://drive.example/x''"
    by (simp add: example_defs)
  have u: "updateById_order (Suc 0) f paid_db
             = \<lparr>orders = [f paid_order], codes = [example_code]\<rparr>" for f
    by (simp add: updateById_order_def example_defs)
  have "run_two [(False, 1), (False, 2), (True, 3), (True, 4)] (Waiting ?a, Waiting ?b) paid_db =
     (updateById_order (oid paid_order) (\<lambda>d. d\<lparr>activation := Some (activated_with 2 ?a)\<rparr>) paid_db,
      Done (Json 200 (ActivateBody (oid paid_order) 42 (deviceId (activated_with 2 ?a)) (Some 2)
              (case findById_code paid_db (code paid_order) of None \<Rightarrow> None
               | Some cd \<Rightarrow> if driveLink cd = [] then None else Some (driveLink cd)))),
      Done (Json 409 (AlreadyActivatedBody ''Order already activated''
              (Some 2) (deviceId (activated_with 2 ?a)))))"
    by (rule activate_two_calls [of paid_db 42 paid_order ?a ?b 1 2 3 4, THEN mp, OF h,
          THEN conjunct1])
  also have "\<dots> =
     (\<lparr>orders = [paid_order\<lparr>activation := Some \<lparr>isActivated = True, activatedAt = Some 2,
                       deviceId = Some ''dev-A'', ip = Some ''10.0.0.1''\<rparr>\<rparr>],
        codes = [example_code]\<rparr>,
      Done (Json 200 (ActivateBody 1 42 (Some ''dev-A'') (Some 2) (Some ''https://drive.example/x''))),
      Done (Json 409 (AlreadyActivatedBody ''Order already activated'' (Some 2) (Some ''dev-A''))))"
    by (simp add: u w l o)
  finally show ?thesis .
qed

theorem activate_race_counterexample:
  "run_two [(False, 1), (True, 2), (False, 3), (True, 4)]
       (Waiting (example_request (Some 42) (Some ''dev-A'')),
        Waiting (example_request (Some 42) (Some ''dev-B''))) paid_db =
     (\<lparr>orders = [paid_order\<lparr>activation := Some \<lparr>isActivated = True, activatedAt = Some 4,
                       deviceId = Some ''dev-B'', ip = Some ''10.0.0.1''\<rparr>\<rparr>],
        codes = [example_code]\<rparr>,
      Done (Json 200 (ActivateBody 1 42 (Some ''dev-A'') (Some 3) (Some ''https://drive.example/x''))),
      Done (Json 200 (ActivateBody 1 42 (Some ''dev-B'') (Some 4) (Some ''https://drive.example/x''))))"
  by (simp add: activate_load_def activate_finish_def truthy_num_def findOne_orderCode_def
        populate_def findById_code_def activation_isActivated_def updateById_order_def
        request_ip_def header_string_def or_else_def truthy_str_def Let_def example_defs)

end
